theory Spec2Isabelle
  imports Complex_Main "HOL-Library.Word"
begin

section \<open>Errors\<close>

text \<open>
  Every \<open>return ..., err\<close> of the Go sources is a value of this type; a run-time panic
  (index out of range, nil dereference) is a value of it as well, so that no failure of the
  program is hidden behind an unspecified HOL value.
\<close>

datatype error =
    ClientError string
  | LoadLocationError string
  | CouldNotParseLease string error
  | LeaseStillValid int
  | CouldNotUpdateLease error
  | ExpectedFieldsSet
  | ListTimeSeriesError error
  | ExpectedTwoSeries nat
  | ExpectedOneSeries nat
  | ExpectedOnePoint nat
  | UnexpectedValueType
  | UnexpectedEventType string
  | ExpectedTwoOfThree
  | ParseIntSyntax string
  | ParseIntRange string
  | PanicIndexOutOfRange nat nat
  | PanicNilDereference

section \<open>Library functions used by the program\<close>

subsection \<open>strings.Split\<close>

text \<open>
  \<open>strings.Split(s, "/")\<close>: both call sites pass the one-byte separator \<open>"/"\<close>, so the
  separator is a single character here. The result always has one element more than the
  string has separators; the empty string gives one empty element.
\<close>

fun strings_Split :: "string \<Rightarrow> char \<Rightarrow> string list" where
  "strings_Split [] sep = [[]]"
| "strings_Split (c # cs) sep =
     (if c = sep then [] # strings_Split cs sep
      else (case strings_Split cs sep of
              [] \<Rightarrow> [[c]]
            | e # es \<Rightarrow> (c # e) # es))"

text \<open>Indexing a slice: Go panics when the index is not below the length.\<close>

definition index :: "'a list \<Rightarrow> nat \<Rightarrow> error + 'a" where
  "index xs i = (if i < length xs then Inr (xs ! i) else Inl (PanicIndexOutOfRange i (length xs)))"

subsection \<open>strconv.ParseInt and strconv.FormatInt (base 10, 64 bits)\<close>




fun formatBits :: "nat \<Rightarrow> string" where
  "formatBits n =
     (if n < 10 then [''0123456789'' ! n]
      else formatBits (n div 10) @ [''0123456789'' ! (n mod 10)])"


subsection \<open>Package time\<close>

text \<open>
  A \<open>*time.Location\<close> is its table of zone transitions: the offset (seconds east of UTC) in
  force before the first transition, and the transitions in ascending order of their
  instant, each with the offset in force from that instant on. \<open>lookup\<close> returns the offset
  in force at an instant together with the bounds of the period it is in force, as
  \<open>(*Location).lookup\<close> does; \<open>alpha\<close> and \<open>omega\<close> are the library's beginning and end of time.
\<close>

record Location =
  zoneFirst :: int
  tx :: "(int \<times> int) list"

definition alpha :: int where "alpha = - (2 ^ 63)"
definition omega :: int where "omega = 2 ^ 63 - 1"

fun lookup_tx :: "(int \<times> int) list \<Rightarrow> int \<Rightarrow> int \<Rightarrow> int \<Rightarrow> int \<times> int \<times> int" where
  "lookup_tx [] sec off start = (off, start, omega)"
| "lookup_tx ((when, off') # rest) sec off start =
     (if sec < when then (off, start, when) else lookup_tx rest sec off' when)"

definition lookup :: "Location \<Rightarrow> int \<Rightarrow> int \<times> int \<times> int" where
  "lookup l sec = lookup_tx (tx l) sec (zoneFirst l) alpha"

definition zoneOffset :: "Location \<Rightarrow> int \<Rightarrow> int" where
  "zoneOffset l sec = fst (lookup l sec)"

definition UTC :: Location where
  "UTC = \<lparr>zoneFirst = 0, tx = []\<rparr>"

text \<open>
  A \<open>time.Time\<close> is an instant (Unix seconds and nanoseconds) with the location it is
  displayed in. The calendar is the proleptic Gregorian one; days are counted from
  1970-01-01, and the library's cutting of a day count into cycles of 400, 100, 4 and 1
  years is kept (\<open>absDate\<close>), as is the way \<open>time.Date\<close> counts the days of a civil date
  (\<open>daysSinceEpoch\<close>).
\<close>

record Time =
  wallSec :: int
  wallNsec :: int
  tloc :: Location

definition isLeap :: "int \<Rightarrow> bool" where
  "isLeap year = (year mod 4 = 0 \<and> (year mod 100 \<noteq> 0 \<or> year mod 400 = 0))"

definition daysBefore :: "int list" where
  "daysBefore = [0, 31, 59, 90, 120, 151, 181, 212, 243, 273, 304, 334, 365]"

definition daysBeforeYear :: "int \<Rightarrow> int" where
  "daysBeforeYear year =
     (let y = year - 1;
          n400 = y div 400; y1 = y - 400 * n400;
          n100 = y1 div 100; y2 = y1 - 100 * n100;
          n4 = y2 div 4; y3 = y2 - 4 * n4
      in 146097 * n400 + 36524 * n100 + 1461 * n4 + 365 * y3)"

definition daysSinceEpoch :: "int \<Rightarrow> int \<Rightarrow> int \<Rightarrow> int" where
  "daysSinceEpoch year month day =
     daysBeforeYear year
       + daysBefore ! nat (month - 1)
       + (if isLeap year \<and> 3 \<le> month then 1 else 0)
       + (day - 1)
       - 719162"

text \<open>
  \<open>absDate\<close> in two steps: the year and the day within the year (\<open>yearDay\<close>), then the month
  and the day of the month (\<open>monthDay\<close>).
\<close>

definition yearDay :: "int \<Rightarrow> int \<times> int" where
  "yearDay days =
     (let d0 = days + 719162;
          n400 = d0 div 146097; d1 = d0 - 146097 * n400;
          n100 = d1 div 36524; n100' = n100 - n100 div 4; d2 = d1 - 36524 * n100';
          n4 = d2 div 1461; d3 = d2 - 1461 * n4;
          n1 = d3 div 365; n1' = n1 - n1 div 4; yday = d3 - 365 * n1'
      in (1 + 400 * n400 + 100 * n100' + 4 * n4 + n1', yday))"

definition monthDay :: "bool \<Rightarrow> int \<Rightarrow> int \<times> int" where
  "monthDay leap yday =
     (if leap \<and> yday = 59 then (2, 29)
      else let day = (if leap \<and> 59 < yday then yday - 1 else yday);
               month = day div 31;
               end = daysBefore ! nat (month + 1)
           in if end \<le> day then (month + 2, day - end + 1)
              else (month + 1, day - daysBefore ! nat month + 1))"

definition absDate :: "int \<Rightarrow> int \<times> int \<times> int" where
  "absDate days =
     (let (year, yday) = yearDay days;
          (month, day) = monthDay (isLeap year) yday
      in (year, month, day))"

text \<open>
  \<open>time.Date\<close>: the month is normalised into the year and the nanoseconds into the seconds;
  the day may lie outside its month (\<open>AddDate\<close> relies on it). The wall-clock reading,
  in seconds as if it were UTC, is turned into an instant by \<open>unixOfWall\<close>, the last step
  of \<open>time.Date\<close>: the offset in force at that number of seconds is looked up, and when
  the instant so corrected leaves the period of that offset, the offset of the neighbouring
  period is taken instead.
\<close>

definition unixOfWall :: "Location \<Rightarrow> int \<Rightarrow> int" where
  "unixOfWall l unix =
     (let (offset, start, end) = lookup l unix;
          offset' = (if offset \<noteq> 0
                     then (let utc = unix - offset
                           in if utc < start then zoneOffset l (start - 1)
                              else if end \<le> utc then zoneOffset l end
                              else offset)
                     else offset)
      in unix - offset')"

definition time_Date :: "int \<Rightarrow> int \<Rightarrow> int \<Rightarrow> int \<Rightarrow> int \<Rightarrow> int \<Rightarrow> int \<Rightarrow> Location \<Rightarrow> Time" where
  "time_Date year month day hour minute sec nsec l =
     (let m = month - 1;
          year' = year + m div 12;
          month' = m mod 12 + 1;
          sec' = sec + nsec div 1000000000;
          nsec' = nsec mod 1000000000;
          unix = 86400 * daysSinceEpoch year' month' day + 3600 * hour + 60 * minute + sec'
      in \<lparr>wallSec = unixOfWall l unix, wallNsec = nsec', tloc = l\<rparr>)"

definition time_Unix :: "int \<Rightarrow> int \<Rightarrow> Time" where
  "time_Unix sec nsec =
     \<lparr>wallSec = sec + nsec div 1000000000, wallNsec = nsec mod 1000000000, tloc = UTC\<rparr>"

definition Time_Unix :: "Time \<Rightarrow> int" where
  "Time_Unix t = wallSec t"

definition Time_In :: "Time \<Rightarrow> Location \<Rightarrow> Time" where
  "Time_In t l = t\<lparr>tloc := l\<rparr>"



definition localSec :: "Time \<Rightarrow> int" where
  "localSec t = wallSec t + zoneOffset (tloc t) (wallSec t)"

definition Time_Date :: "Time \<Rightarrow> int \<times> int \<times> int" where
  "Time_Date t = absDate (localSec t div 86400)"

definition Time_Clock :: "Time \<Rightarrow> int \<times> int \<times> int" where
  "Time_Clock t =
     (let s = localSec t mod 86400 in (s div 3600, (s mod 3600) div 60, s mod 60))"

definition Time_AddDate :: "Time \<Rightarrow> int \<Rightarrow> int \<Rightarrow> int \<Rightarrow> Time" where
  "Time_AddDate t years months days =
     (let (year, month, day) = Time_Date t;
          (hour, minute, sec) = Time_Clock t
      in time_Date (year + years) (month + months) (day + days) hour minute sec (wallNsec t) (tloc t))"

fun zeroPad :: "nat \<Rightarrow> string \<Rightarrow> string" where
  "zeroPad width s = replicate (width - length s) (CHR ''0'') @ s"

definition appendInt :: "int \<Rightarrow> nat \<Rightarrow> string" where
  "appendInt x width =
     (if x < 0 then CHR ''-'' # zeroPad width (formatBits (nat (- x)))
      else zeroPad width (formatBits (nat x)))"

text \<open>\<open>t.Format("2006-01-02")\<close>, the only layout the program uses.\<close>

definition Time_Format_date :: "Time \<Rightarrow> string" where
  "Time_Format_date t =
     (let (year, month, day) = Time_Date t
      in appendInt year 4 @ ''-'' @ appendInt month 2 @ ''-'' @ appendInt day 2)"

section \<open>clients: services and SLOs (sd\_slo\_client.go)\<close>

record Service =
  Name :: string
  DisplayName :: string
  Type :: string
  ResourceName :: string

text \<open>float64 fields (\<open>Goal\<close>, \<open>Target\<close>, metric values) are modelled by the real number they
  denote; NaN, infinities and the rounding of sums are outside the model.\<close>

type_synonym float64 = real

record SLO =
  Name :: string
  DisplayName :: string
  Goal :: float64

definition Service_HumanName :: "'a Service_scheme \<Rightarrow> error + string" where
  "Service_HumanName s =
     (if Service.DisplayName s \<noteq> [] then Inr (Service.DisplayName s)
      else let elements = strings_Split (Service.Name s) (CHR ''/'')
           in index elements 3)"

definition SLO_HumanName :: "'a SLO_scheme \<Rightarrow> error + string" where
  "SLO_HumanName s =
     (if SLO.DisplayName s \<noteq> [] then Inr (SLO.DisplayName s)
      else let elements = strings_Split (SLO.Name s) (CHR ''/'')
           in index elements 5)"

section \<open>clients: BigQuery rows and metric time series\<close>

text \<open>int64 is a 64-bit word: \<open>+\<close> and \<open>-\<close> wrap around as they do in Go.\<close>

type_synonym int64 = "64 word"

text \<open>
  The conversion \<open>int64(f)\<close> discards the fraction (truncation towards zero). For a value
  outside the int64 range Go leaves the result to the implementation; the value the amd64
  instruction gives is taken.
\<close>

definition trunc :: "real \<Rightarrow> int" where
  "trunc x = (if 0 \<le> x then \<lfloor>x\<rfloor> else \<lceil>x\<rceil>)"

definition float64_to_int64 :: "float64 \<Rightarrow> int64" where
  "float64_to_int64 x =
     (let i = trunc x
      in if - (2 ^ 63) \<le> i \<and> i < 2 ^ 63 then word_of_int i else word_of_int (- (2 ^ 63)))"

record BQRow =
  Service :: string
  SLO :: string
  Date :: string
  Total :: int64
  Good :: int64
  Target :: float64

datatype ValueType = VALUE_TYPE_UNSPECIFIED | BOOL | INT64 | DOUBLE | STRING | DISTRIBUTION | MONEY

text \<open>The value of a point is a oneof; \<open>NoValue\<close> is the unset (nil) value.\<close>

datatype TypedValue =
    NoValue
  | BoolValue bool
  | Int64Value int64
  | DoubleValue float64
  | StringValue string
  | DistributionValue

definition GetDoubleValue :: "TypedValue \<Rightarrow> float64" where
  "GetDoubleValue v = (case v of DoubleValue d \<Rightarrow> d | _ \<Rightarrow> 0)"

definition GetInt64Value :: "TypedValue \<Rightarrow> int64" where
  "GetInt64Value v = (case v of Int64Value i \<Rightarrow> i | _ \<Rightarrow> 0)"

record TimeSeries =
  Labels :: "(string \<times> string) list"
  ValueType :: ValueType
  Points :: "TypedValue list"

text \<open>\<open>s.GetMetric().GetLabels()[k]\<close>: a missing metric, map or key reads as the empty string.\<close>

definition GetLabel :: "TimeSeries \<Rightarrow> string \<Rightarrow> string" where
  "GetLabel s k = (case map_of (Labels s) k of None \<Rightarrow> [] | Some v \<Rightarrow> v)"

datatype Reducer = REDUCE_NONE | REDUCE_SUM
datatype Aligner = ALIGN_NONE | ALIGN_DELTA

record ListTimeSeriesRequest =
  ReqName :: string
  Filter :: string
  StartTime :: int
  EndTime :: int
  AlignmentPeriod :: int
  CrossSeriesReducer :: Reducer
  PerSeriesAligner :: Aligner

section \<open>Collaborators\<close>

text \<open>
  The three clients are interfaces, and the clock is a package variable. Each call the
  program makes is appended to a history, and the answer of a collaborator may depend on
  the whole history before the call: this covers every deterministic implementation, the
  mocks of the tests included. Log output is not modelled.
\<close>

datatype event =
    EvNow
  | EvQuery string
  | EvPut string string "BQRow list"
  | EvReadLabel string string
  | EvWriteLabel string string string string
  | EvServices
  | EvSLOs Service
  | EvListTimeSeries ListTimeSeriesRequest

record BigQueryClient =
  Query :: "event list \<Rightarrow> string \<Rightarrow> error + BQRow list"
  Put :: "event list \<Rightarrow> string \<Rightarrow> string \<Rightarrow> BQRow list \<Rightarrow> error option"
  ReadDatasetMetadataLabel :: "event list \<Rightarrow> string \<Rightarrow> string \<Rightarrow> error + (string \<times> string)"
  WriteDatasetMetadataLabel ::
    "event list \<Rightarrow> string \<Rightarrow> string \<Rightarrow> string \<Rightarrow> string \<Rightarrow> error option"

record SLOClient =
  Services :: "event list \<Rightarrow> error + Service list"
  SLOs :: "event list \<Rightarrow> Service \<Rightarrow> error + SLO list"

record MetricClient =
  ListTimeSeries :: "event list \<Rightarrow> ListTimeSeriesRequest \<Rightarrow> error + TimeSeries list"

text \<open>
  The package variables \<open>timeNow\<close>, \<open>backfillDays\<close> and \<open>bqBatchSize\<close> (the tests assign to
  them), and the two library functions that read the outside world: \<open>time.Now\<close> and
  \<open>time.LoadLocation\<close>.
\<close>

record Env =
  timeNow :: "event list \<Rightarrow> Time"
  backfillDays :: int
  bqBatchSize :: int
  time_Now :: "event list \<Rightarrow> Time"
  time_LoadLocation :: "string \<Rightarrow> error + Location"

section \<open>function.go: configuration\<close>

definition tableName :: string where
  "tableName = ''data''"

record Config =
  Project :: string
  Dataset :: string
  TimeZone :: string

section \<open>sd.go: day boundaries\<close>

definition daysAgoMidnightTimestamp :: "Time \<Rightarrow> Location \<Rightarrow> int \<Rightarrow> Time" where
  "daysAgoMidnightTimestamp now l daysAgo =
     (let (year, month, day) = Time_Date (Time_AddDate (Time_In now l) 0 0 (- daysAgo))
      in time_Date year month day 0 0 0 0 l)"

section \<open>bqmap.go: the index of existing data\<close>

type_synonym bqMapKey = "string \<times> string \<times> string"
type_synonym bqMap = "bqMapKey \<rightharpoonup> bool"

definition Add :: "bqMap \<Rightarrow> string \<Rightarrow> string \<Rightarrow> string \<Rightarrow> bqMap" where
  "Add b service slo date = b((service, slo, date) \<mapsto> True)"

definition Check :: "bqMap \<Rightarrow> string \<Rightarrow> string \<Rightarrow> string \<Rightarrow> bool" where
  "Check b service slo date = (case b (service, slo, date) of None \<Rightarrow> False | Some v \<Rightarrow> v)"

fun readBQMap_rows :: "BQRow list \<Rightarrow> bqMap \<Rightarrow> error + bqMap" where
  "readBQMap_rows [] result = Inr result"
| "readBQMap_rows (row # rows) result =
     (if Service row = [] \<or> SLO row = [] \<or> Date row = [] then Inl ExpectedFieldsSet
      else readBQMap_rows rows (Add result (Service row) (SLO row) (Date row)))"

definition readBQMap_query :: "Config \<Rightarrow> string \<Rightarrow> string" where
  "readBQMap_query cfg startDate =
     ''SELECT service, slo, FORMAT_DATE('' @ [CHR 0x27] @ ''%F'' @ [CHR 0x27] @ '', `date`) as date FROM `''
       @ Dataset cfg @ ''.'' @ tableName @ ''` WHERE date >= '' @ [CHR 0x27] @ startDate
       @ [CHR 0x27] @ '';''"

definition readBQMap ::
  "Env \<Rightarrow> BigQueryClient \<Rightarrow> Config \<Rightarrow> event list \<Rightarrow> (error + bqMap) \<times> event list" where
  "readBQMap E client cfg tr =
     (case time_LoadLocation E (TimeZone cfg) of
        Inl err \<Rightarrow> (Inl err, tr)
      | Inr l \<Rightarrow>
          let startDate =
                Time_Format_date (daysAgoMidnightTimestamp (time_Now E tr) l (backfillDays E));
              tr1 = tr @ [EvNow];
              q = readBQMap_query cfg startDate;
              tr2 = tr1 @ [EvQuery q]
          in (case Query client tr1 q of
                Inl err \<Rightarrow> (Inl err, tr2)
              | Inr rows \<Rightarrow> (readBQMap_rows rows Map.empty, tr2)))"

section \<open>bqlease.go: the lease\<close>

definition bqLeaseLabelName :: string where
  "bqLeaseLabelName = ''slo2bq_lease_expiration''"

record bqLease =
  bq :: BigQueryClient
  dataset :: string


definition bqLease_Close :: "bqLease \<Rightarrow> event list \<Rightarrow> error option \<times> event list" where
  "bqLease_Close l tr =
     (WriteDatasetMetadataLabel (bq l) tr (dataset l) bqLeaseLabelName [] [],
      tr @ [EvWriteLabel (dataset l) bqLeaseLabelName [] []])"

section \<open>sd.go: new records of one SLO\<close>

text \<open>
  The loop of \<open>newRecords\<close> over \<open>daysAgo = 1, ..., backfillDays\<close>. Its text is the same in
  both revisions of sd.go; they differ in the \<open>getGoodTotal\<close> that is called, which is the
  parameter \<open>goodTotal\<close> here (already applied to the client, the configuration and the
  SLO). Each of the two calls of \<open>timeNow()\<close> is a reading of the clock of its own.
\<close>

fun newRecords_days ::
  "Env \<Rightarrow> (Time \<Rightarrow> Time \<Rightarrow> event list \<Rightarrow> (error + int64 \<times> int64) \<times> event list) \<Rightarrow>
   'a Service_scheme \<Rightarrow> 'b SLO_scheme \<Rightarrow> bqMap \<Rightarrow> Location \<Rightarrow> int list \<Rightarrow> BQRow list \<Rightarrow>
   event list \<Rightarrow> (error + BQRow list) \<times> event list" where
  "newRecords_days E goodTotal svc slo existing l [] rows tr = (Inr rows, tr)"
| "newRecords_days E goodTotal svc slo existing l (daysAgo # days) rows tr =
     (let start = daysAgoMidnightTimestamp (timeNow E tr) l daysAgo;
          tr1 = tr @ [EvNow];
          end = daysAgoMidnightTimestamp (timeNow E tr1) l (daysAgo - 1);
          tr2 = tr1 @ [EvNow];
          date = Time_Format_date start
      in case Service_HumanName svc of
           Inl err \<Rightarrow> (Inl err, tr2)
         | Inr service \<Rightarrow>
             (case SLO_HumanName slo of
                Inl err \<Rightarrow> (Inl err, tr2)
              | Inr sloName \<Rightarrow>
                  if Check existing service sloName date
                  then newRecords_days E goodTotal svc slo existing l days rows tr2
                  else (case goodTotal start end tr2 of
                          (Inl err, tr3) \<Rightarrow> (Inl err, tr3)
                        | (Inr (good, tot), tr3) \<Rightarrow>
                            newRecords_days E goodTotal svc slo existing l days
                              (rows @ [\<lparr>Service = service, SLO = sloName, Date = date,
                                        Total = tot, Good = good, Target = Goal slo\<rparr>])
                              tr3)))"

section \<open>sd.go, the revision that queries \<open>select_slo_counts\<close>\<close>

fun getGoodTotal_series :: "TimeSeries list \<Rightarrow> float64 \<Rightarrow> float64 \<Rightarrow> error + float64 \<times> float64" where
  "getGoodTotal_series [] good tot = Inr (good, tot)"
| "getGoodTotal_series (s # ss) good tot =
     (if length (Points s) \<noteq> 1 then Inl (ExpectedOnePoint (length (Points s)))
      else if ValueType s \<noteq> DOUBLE then Inl UnexpectedValueType
      else let v = GetDoubleValue (Points s ! 0)
           in if GetLabel s ''event_type'' = ''bad''
              then getGoodTotal_series ss good (tot + v)
              else if GetLabel s ''event_type'' = ''good''
              then getGoodTotal_series ss (good + v) (tot + v)
              else Inl (UnexpectedEventType (GetLabel s ''event_type'')))"

text \<open>The request \<open>getGoodTotal\<close> builds: one query over the interval, aligned to its whole length.\<close>

definition getGoodTotal_req :: "Config \<Rightarrow> 'b SLO_scheme \<Rightarrow> Time \<Rightarrow> Time \<Rightarrow> ListTimeSeriesRequest" where
  "getGoodTotal_req cfg slo start end =
     \<lparr>ReqName = ''projects/'' @ Project cfg,
      Filter = ''select_slo_counts('' @ [CHR 0x22] @ SLO.Name slo @ [CHR 0x22] @ '')'',
      StartTime = Time_Unix start,
      EndTime = Time_Unix end,
      AlignmentPeriod = Time_Unix end - Time_Unix start,
      CrossSeriesReducer = REDUCE_NONE,
      PerSeriesAligner = ALIGN_DELTA\<rparr>"

definition getGoodTotal ::
  "MetricClient \<Rightarrow> Config \<Rightarrow> 'b SLO_scheme \<Rightarrow> Time \<Rightarrow> Time \<Rightarrow> event list \<Rightarrow>
   (error + int64 \<times> int64) \<times> event list" where
  "getGoodTotal sd cfg slo start end tr =
     (let req = getGoodTotal_req cfg slo start end;
          tr1 = tr @ [EvListTimeSeries req]
      in case ListTimeSeries sd tr req of
           Inl err \<Rightarrow> (Inl (ListTimeSeriesError err), tr1)
         | Inr series \<Rightarrow>
             if length series = 0 then (Inr (0, 0), tr1)
             else if length series \<noteq> 2 then (Inl (ExpectedTwoSeries (length series)), tr1)
             else (case getGoodTotal_series series 0 0 of
                     Inl err \<Rightarrow> (Inl err, tr1)
                   | Inr (good, tot) \<Rightarrow>
                       (Inr (float64_to_int64 good, float64_to_int64 tot), tr1)))"

definition newRecords ::
  "Env \<Rightarrow> Config \<Rightarrow> 'a Service_scheme \<Rightarrow> 'b SLO_scheme \<Rightarrow> bqMap \<Rightarrow> MetricClient \<Rightarrow> event list \<Rightarrow>
   (error + BQRow list) \<times> event list" where
  "newRecords E cfg svc slo existing sd tr =
     (case time_LoadLocation E (TimeZone cfg) of
        Inl err \<Rightarrow> (Inl err, tr)
      | Inr l \<Rightarrow>
          newRecords_days E (getGoodTotal sd cfg slo) svc slo existing l [1 .. backfillDays E] [] tr)"

text \<open>
  \<open>syncAllServices\<close>: the loop over the SLOs of one service, the loop over the services, and
  the function. The arguments of the \<open>log.Printf\<close> after \<open>newRecords\<close> call both
  \<open>HumanName\<close>s, which can panic.
\<close>

fun syncAllServices_slos ::
  "Env \<Rightarrow> Config \<Rightarrow> MetricClient \<Rightarrow> BigQueryClient \<Rightarrow> bqMap \<Rightarrow> Service \<Rightarrow> SLO list \<Rightarrow>
   BQRow list \<Rightarrow> event list \<Rightarrow> (error + BQRow list) \<times> event list" where
  "syncAllServices_slos E cfg sd bqc existing svc [] rows tr = (Inr rows, tr)"
| "syncAllServices_slos E cfg sd bqc existing svc (slo # slos) rows tr =
     (case newRecords E cfg svc slo existing sd tr of
        (Inl err, tr1) \<Rightarrow> (Inl err, tr1)
      | (Inr res, tr1) \<Rightarrow>
          (case Service_HumanName svc of
             Inl err \<Rightarrow> (Inl err, tr1)
           | Inr _ \<Rightarrow>
               (case SLO_HumanName slo of
                  Inl err \<Rightarrow> (Inl err, tr1)
                | Inr _ \<Rightarrow>
                    let rows1 = rows @ res
                    in if bqBatchSize E \<le> int (length rows1)
                       then (case Put bqc tr1 (Dataset cfg) tableName rows1 of
                               Some err \<Rightarrow> (Inl err, tr1 @ [EvPut (Dataset cfg) tableName rows1])
                             | None \<Rightarrow>
                                 syncAllServices_slos E cfg sd bqc existing svc slos []
                                   (tr1 @ [EvPut (Dataset cfg) tableName rows1]))
                       else syncAllServices_slos E cfg sd bqc existing svc slos rows1 tr1)))"

fun syncAllServices_svcs ::
  "Env \<Rightarrow> Config \<Rightarrow> MetricClient \<Rightarrow> SLOClient \<Rightarrow> BigQueryClient \<Rightarrow> bqMap \<Rightarrow> Service list \<Rightarrow>
   BQRow list \<Rightarrow> event list \<Rightarrow> (error + BQRow list) \<times> event list" where
  "syncAllServices_svcs E cfg sd sloc bqc existing [] rows tr = (Inr rows, tr)"
| "syncAllServices_svcs E cfg sd sloc bqc existing (svc # svcs) rows tr =
     (case SLOs sloc tr svc of
        Inl err \<Rightarrow> (Inl err, tr @ [EvSLOs svc])
      | Inr slos \<Rightarrow>
          (case syncAllServices_slos E cfg sd bqc existing svc slos rows (tr @ [EvSLOs svc]) of
             (Inl err, tr1) \<Rightarrow> (Inl err, tr1)
           | (Inr rows1, tr1) \<Rightarrow> syncAllServices_svcs E cfg sd sloc bqc existing svcs rows1 tr1))"

definition syncAllServices ::
  "Env \<Rightarrow> Config \<Rightarrow> MetricClient \<Rightarrow> SLOClient \<Rightarrow> BigQueryClient \<Rightarrow> event list \<Rightarrow>
   error option \<times> event list" where
  "syncAllServices E cfg sd sloc bqc tr =
     (case readBQMap E bqc cfg tr of
        (Inl err, tr1) \<Rightarrow> (Some err, tr1)
      | (Inr existing, tr1) \<Rightarrow>
          (case Services sloc tr1 of
             Inl err \<Rightarrow> (Some err, tr1 @ [EvServices])
           | Inr svcs \<Rightarrow>
               (case syncAllServices_svcs E cfg sd sloc bqc existing svcs [] (tr1 @ [EvServices]) of
                  (Inl err, tr2) \<Rightarrow> (Some err, tr2)
                | (Inr rows, tr2) \<Rightarrow>
                    (Put bqc tr2 (Dataset cfg) tableName rows,
                     tr2 @ [EvPut (Dataset cfg) tableName rows]))))"

section \<open>sd.go, the revision with the good, bad and total filters\<close>

text \<open>
  The declaration of the indicator is not among the sources at hand; it is reconstructed
  from the accesses \<open>slo.SLI.RequestBasedSLI.GoodTotalRatioSLI\<close>, \<open>sli.Good\<close>, \<open>sli.Bad\<close> and
  \<open>sli.Total\<close>, with the two members that are compared with \<open>nil\<close> as optional values.
\<close>

record GoodTotalRatioSLI =
  GoodFilter :: string
  BadFilter :: string
  TotalFilter :: string

record RequestBasedSLI =
  GoodTotalRatioSLI :: "GoodTotalRatioSLI option"

record SLI =
  RequestBasedSLI :: "RequestBasedSLI option"

record SLO2 = SLO +
  SLI :: SLI

text \<open>The request \<open>getCounter\<close> builds: as above, with the sum over all series.\<close>

definition getCounter_req :: "Config \<Rightarrow> Time \<Rightarrow> Time \<Rightarrow> string \<Rightarrow> ListTimeSeriesRequest" where
  "getCounter_req cfg start end filter' =
     \<lparr>ReqName = ''projects/'' @ Project cfg,
      Filter = filter',
      StartTime = Time_Unix start,
      EndTime = Time_Unix end,
      AlignmentPeriod = Time_Unix end - Time_Unix start,
      CrossSeriesReducer = REDUCE_SUM,
      PerSeriesAligner = ALIGN_DELTA\<rparr>"

definition getCounter ::
  "MetricClient \<Rightarrow> Config \<Rightarrow> Time \<Rightarrow> Time \<Rightarrow> string \<Rightarrow> event list \<Rightarrow> (error + int64) \<times> event list" where
  "getCounter sd cfg start end filter' tr =
     (let req = getCounter_req cfg start end filter';
          tr1 = tr @ [EvListTimeSeries req]
      in case ListTimeSeries sd tr req of
           Inl err \<Rightarrow> (Inl err, tr1)
         | Inr series \<Rightarrow>
             if length series = 0 then (Inr 0, tr1)
             else if length series \<noteq> 1 then (Inl (ExpectedOneSeries (length series)), tr1)
             else if length (Points (series ! 0)) \<noteq> 1
             then (Inl (ExpectedOnePoint (length (Points (series ! 0)))), tr1)
             else if ValueType (series ! 0) = DOUBLE
             then (Inr (float64_to_int64 (GetDoubleValue (Points (series ! 0) ! 0))), tr1)
             else if ValueType (series ! 0) = INT64
             then (Inr (GetInt64Value (Points (series ! 0) ! 0)), tr1)
             else (Inl UnexpectedValueType, tr1))"

definition getGoodTotal2_sli ::
  "MetricClient \<Rightarrow> Config \<Rightarrow> GoodTotalRatioSLI \<Rightarrow> Time \<Rightarrow> Time \<Rightarrow> event list \<Rightarrow>
   (error + int64 \<times> int64) \<times> event list" where
  "getGoodTotal2_sli sd cfg sli start end tr =
     (if GoodFilter sli \<noteq> [] \<and> TotalFilter sli \<noteq> [] then
        (case getCounter sd cfg start end (GoodFilter sli) tr of
           (Inl err, tr1) \<Rightarrow> (Inl err, tr1)
         | (Inr good, tr1) \<Rightarrow>
             (case getCounter sd cfg start end (TotalFilter sli) tr1 of
                (Inl err, tr2) \<Rightarrow> (Inl err, tr2)
              | (Inr tot, tr2) \<Rightarrow> (Inr (good, tot), tr2)))
      else if GoodFilter sli \<noteq> [] \<and> BadFilter sli \<noteq> [] then
        (case getCounter sd cfg start end (GoodFilter sli) tr of
           (Inl err, tr1) \<Rightarrow> (Inl err, tr1)
         | (Inr good, tr1) \<Rightarrow>
             (case getCounter sd cfg start end (BadFilter sli) tr1 of
                (Inl err, tr2) \<Rightarrow> (Inl err, tr2)
              | (Inr bad, tr2) \<Rightarrow> (Inr (good, good + bad), tr2)))
      else if BadFilter sli \<noteq> [] \<and> TotalFilter sli \<noteq> [] then
        (case getCounter sd cfg start end (BadFilter sli) tr of
           (Inl err, tr1) \<Rightarrow> (Inl err, tr1)
         | (Inr bad, tr1) \<Rightarrow>
             (case getCounter sd cfg start end (TotalFilter sli) tr1 of
                (Inl err, tr2) \<Rightarrow> (Inl err, tr2)
              | (Inr tot, tr2) \<Rightarrow> (Inr (tot - bad, tot), tr2)))
      else (Inl ExpectedTwoOfThree, tr))"

definition getGoodTotal2 ::
  "MetricClient \<Rightarrow> Config \<Rightarrow> SLO2 \<Rightarrow> Time \<Rightarrow> Time \<Rightarrow> event list \<Rightarrow>
   (error + int64 \<times> int64) \<times> event list" where
  "getGoodTotal2 sd cfg slo start end tr =
     (case RequestBasedSLI (SLI slo) of
        None \<Rightarrow> (Inl PanicNilDereference, tr)
      | Some r \<Rightarrow>
          (case GoodTotalRatioSLI r of
             None \<Rightarrow> (Inl PanicNilDereference, tr)
           | Some sli \<Rightarrow> getGoodTotal2_sli sd cfg sli start end tr))"

definition newRecords2 ::
  "Env \<Rightarrow> Config \<Rightarrow> 'a Service_scheme \<Rightarrow> SLO2 \<Rightarrow> bqMap \<Rightarrow> MetricClient \<Rightarrow> event list \<Rightarrow>
   (error + BQRow list) \<times> event list" where
  "newRecords2 E cfg svc slo existing sd tr =
     (case time_LoadLocation E (TimeZone cfg) of
        Inl err \<Rightarrow> (Inl err, tr)
      | Inr l \<Rightarrow>
          newRecords_days E (getGoodTotal2 sd cfg slo) svc slo existing l [1 .. backfillDays E] [] tr)"

section \<open>Projections of a history\<close>

fun metricQueries :: "event list \<Rightarrow> ListTimeSeriesRequest list" where
  "metricQueries [] = []"
| "metricQueries (EvListTimeSeries req # es) = req # metricQueries es"
| "metricQueries (_ # es) = metricQueries es"

fun putCalls :: "event list \<Rightarrow> BQRow list list" where
  "putCalls [] = []"
| "putCalls (EvPut ds table rows # es) = rows # putCalls es"
| "putCalls (_ # es) = putCalls es"


section \<open>Concrete collaborators\<close>

text \<open>The configuration and one day (2015-05-09 in London) of the tests.\<close>

definition cfg0 :: Config where
  "cfg0 = \<lparr>Project = ''project'', Dataset = ''datasetname'', TimeZone = ''Europe/London''\<rparr>"

definition day_start :: Time where "day_start = time_Unix 1431126000 0"
definition day_end :: Time where "day_end = time_Unix 1431212400 0"

definition series_of :: "ValueType \<Rightarrow> TypedValue \<Rightarrow> TimeSeries" where
  "series_of vt v = \<lparr>Labels = [], ValueType = vt, Points = [v]\<rparr>"

text \<open>A metric client that answers by the filter of the request.\<close>

definition sd_counters :: MetricClient where
  "sd_counters = \<lparr>ListTimeSeries = (\<lambda>tr req.
      if Filter req = ''good'' then Inr [series_of INT64 (Int64Value 10)]
      else if Filter req = ''bad'' then Inr [series_of INT64 (Int64Value 5)]
      else if Filter req = ''total'' then Inr [series_of INT64 (Int64Value 15)]
      else if Filter req = ''fraction'' then Inr [series_of DOUBLE (DoubleValue (57 / 10))]
      else if Filter req = ''two'' then Inr [series_of INT64 (Int64Value 1), series_of INT64 (Int64Value 2)]
      else if Filter req = ''nopoints'' then Inr [\<lparr>Labels = [], ValueType = INT64, Points = []\<rparr>]
      else if Filter req = ''bool'' then Inr [series_of BOOL (BoolValue True)]
      else Inr [])\<rparr>"

text \<open>
  The rules of three zones, cut to the transitions of one year: Europe/London in 2015,
  Australia/Lord\_Howe in 2015 (a half-hour shift) and America/Sao\_Paulo in 2018, where
  the clocks went forward at midnight.
\<close>

definition London2015 :: Location where
  "London2015 = \<lparr>zoneFirst = 0, tx = [(1427590800, 3600), (1445734800, 0)]\<rparr>"



text \<open>The setting of \<open>TestSyncAllServices\<close>: a clock that stands at 2015-05-10 15:00:00 UTC
  (1431270000 in Unix seconds), two days of backfill, batches of one row.\<close>

definition test_env :: Env where
  "test_env =
     \<lparr>timeNow = (\<lambda>tr. time_Unix 1431270000 0),
      backfillDays = 2,
      bqBatchSize = 1,
      time_Now = (\<lambda>tr. time_Unix 1431270000 0),
      time_LoadLocation = (\<lambda>name. if name = ''Europe/London'' then Inr London2015
                                    else Inl (LoadLocationError name))\<rparr>"

definition svc1 :: Service where
  "svc1 = \<lparr>Service.Name = ''s1'', DisplayName = ''svc1'', Type = [], ResourceName = []\<rparr>"

definition slo_good_only :: SLO2 where
  "slo_good_only =
     \<lparr>SLO.Name = ''s1'', DisplayName = ''slo1'', Goal = 99 / 100,
      SLI = \<lparr>RequestBasedSLI = Some \<lparr>GoodTotalRatioSLI =
               Some \<lparr>GoodFilter = ''good'', BadFilter = [], TotalFilter = []\<rparr>\<rparr>\<rparr>\<rparr>"

text \<open>Metric clients for the query of \<open>select_slo_counts\<close>: no series at all, and the two
  series of the tests (100 good and 11 bad events), in both orders.\<close>

definition labelled :: "string \<Rightarrow> float64 \<Rightarrow> TimeSeries" where
  "labelled l v = \<lparr>Labels = [(''event_type'', l)], ValueType = DOUBLE, Points = [DoubleValue v]\<rparr>"


definition sd_good_bad :: MetricClient where
  "sd_good_bad = \<lparr>ListTimeSeries = (\<lambda>tr req. Inr [labelled ''good'' 100, labelled ''bad'' 11])\<rparr>"



definition slo1 :: SLO where
  "slo1 = \<lparr>SLO.Name = ''s1'', DisplayName = ''slo1'', Goal = 99 / 100\<rparr>"

definition slo2 :: SLO where
  "slo2 = \<lparr>SLO.Name = ''s1'', DisplayName = ''slo2'', Goal = 1 / 2\<rparr>"

text \<open>BigQuery clients: the answers of \<open>TestSyncAllServices\<close>, and one that returns a row
  without a service. The dataset label holds the lease given, under the version "etag1".\<close>

definition row_key :: "string \<Rightarrow> string \<Rightarrow> string \<Rightarrow> BQRow" where
  "row_key service slo date =
     \<lparr>Service = service, SLO = slo, Date = date, Total = 0, Good = 0, Target = 0\<rparr>"

definition bq_test :: "string \<Rightarrow> error option \<Rightarrow> BigQueryClient" where
  "bq_test lease writeErr =
     \<lparr>Query = (\<lambda>tr q. Inr [row_key ''svc1'' ''slo1'' ''2015-05-08'',
                            row_key ''svc1'' ''slo2'' ''2015-05-09'']),
      Put = (\<lambda>tr ds table rows. None),
      ReadDatasetMetadataLabel = (\<lambda>tr ds label. Inr (lease, ''etag1'')),
      WriteDatasetMetadataLabel = (\<lambda>tr ds label v etag. writeErr)\<rparr>"

definition bq_empty_service :: BigQueryClient where
  "bq_empty_service =
     \<lparr>Query = (\<lambda>tr q. Inr [row_key [] ''slo2'' ''2015-01-01'']),
      Put = (\<lambda>tr ds table rows. None),
      ReadDatasetMetadataLabel = (\<lambda>tr ds label. Inr ([], ''etag1'')),
      WriteDatasetMetadataLabel = (\<lambda>tr ds label v etag. None)\<rparr>"

text \<open>The index of \<open>TestSyncAllServices\<close>: one of the two days is present for each SLO.\<close>

definition existing_test :: bqMap where
  "existing_test = Add (Add Map.empty ''svc1'' ''slo1'' ''2015-05-08'') ''svc1'' ''slo2'' ''2015-05-09''"

text \<open>The catalogue of \<open>TestSyncAllServices\<close> (one service with two SLOs), and one with the
  first SLO only; a BigQuery client whose table is empty.\<close>

definition sloc_test :: SLOClient where
  "sloc_test = \<lparr>Services = (\<lambda>tr. Inr [svc1]), SLOs = (\<lambda>tr svc. Inr [slo1, slo2])\<rparr>"

definition sloc_one :: SLOClient where
  "sloc_one = \<lparr>Services = (\<lambda>tr. Inr [svc1]), SLOs = (\<lambda>tr svc. Inr [slo1])\<rparr>"

definition bq_no_rows :: BigQueryClient where
  "bq_no_rows =
     \<lparr>Query = (\<lambda>tr q. Inr []),
      Put = (\<lambda>tr ds table rows. None),
      ReadDatasetMetadataLabel = (\<lambda>tr ds label. Inr ([], ''etag1'')),
      WriteDatasetMetadataLabel = (\<lambda>tr ds label v etag. None)\<rparr>"

section \<open>The batching, as the specification words it\<close>

text \<open>
  The rows of each SLO, in order, are appended to a buffer; once the buffer has reached the
  batch size it is written and cleared. The result is the list of batches written and the
  buffer that is left for the final write.
\<close>

fun batches_spec :: "int \<Rightarrow> BQRow list list \<Rightarrow> BQRow list \<Rightarrow> BQRow list list \<times> BQRow list" where
  "batches_spec n [] buf = ([], buf)"
| "batches_spec n (res # rest) buf =
     (if n \<le> int (length (buf @ res))
      then (case batches_spec n rest [] of (written, left) \<Rightarrow> ((buf @ res) # written, left))
      else batches_spec n rest (buf @ res))"

section \<open>Properties\<close>

subsection \<open>Human-readable names\<close>

lemma strings_Split_nonempty: "strings_Split s sep \<noteq> []"
  by (induction s) (auto split: list.splits)

lemma length_strings_Split: "length (strings_Split s sep) = Suc (count_list s sep)"
proof (induction s)
  case Nil
  show ?case by simp
next
  case (Cons c cs)
  then show ?case
    using strings_Split_nonempty [of cs sep] by (auto split: list.splits)
qed

text \<open>
  Claim C10. \<open>Service.HumanName\<close> and \<open>SLO.HumanName\<close> return \<open>DisplayName\<close> whenever it is
  not empty. With an empty \<open>DisplayName\<close> they return element 3 (the 4th) respectively
  element 5 (the 6th) of \<open>Name\<close> split at \<open>/\<close>, and they panic with an index out of range
  exactly when \<open>Name\<close> has fewer than 3 respectively 5 separators: they are total only on
  names of the expected shape.
\<close>

theorem HumanName_partial:
  "(Service.DisplayName s \<noteq> [] \<longrightarrow> Service_HumanName s = Inr (Service.DisplayName s)) \<and>
   (Service.DisplayName s = [] \<and> 3 \<le> count_list (Service.Name s) (CHR ''/'') \<longrightarrow>
      Service_HumanName s = Inr (strings_Split (Service.Name s) (CHR ''/'') ! 3)) \<and>
   (Service.DisplayName s = [] \<and> count_list (Service.Name s) (CHR ''/'') < 3 \<longrightarrow>
      Service_HumanName s =
        Inl (PanicIndexOutOfRange 3 (Suc (count_list (Service.Name s) (CHR ''/''))))) \<and>
   (SLO.DisplayName l \<noteq> [] \<longrightarrow> SLO_HumanName l = Inr (SLO.DisplayName l)) \<and>
   (SLO.DisplayName l = [] \<and> 5 \<le> count_list (SLO.Name l) (CHR ''/'') \<longrightarrow>
      SLO_HumanName l = Inr (strings_Split (SLO.Name l) (CHR ''/'') ! 5)) \<and>
   (SLO.DisplayName l = [] \<and> count_list (SLO.Name l) (CHR ''/'') < 5 \<longrightarrow>
      SLO_HumanName l =
        Inl (PanicIndexOutOfRange 5 (Suc (count_list (SLO.Name l) (CHR ''/'')))))"
  by (simp add: Service_HumanName_def SLO_HumanName_def index_def length_strings_Split)

theorem HumanName_partial_witness:
  "Service_HumanName \<lparr>Service.Name = ''s1'', DisplayName = ''svc1'', Type = [], ResourceName = []\<rparr> = Inr ''svc1'' \<and>
   Service_HumanName \<lparr>Service.Name = ''projects/p/services/checkout'', DisplayName = [], Type = [], ResourceName = []\<rparr>
     = Inr ''checkout'' \<and>
   Service_HumanName \<lparr>Service.Name = ''s1'', DisplayName = [], Type = [], ResourceName = []\<rparr>
     = Inl (PanicIndexOutOfRange 3 1) \<and>
   SLO_HumanName \<lparr>SLO.Name = ''s1'', DisplayName = ''slo1'', Goal = 0.99\<rparr> = Inr ''slo1'' \<and>
   SLO_HumanName \<lparr>SLO.Name = ''projects/p/services/s/serviceLevelObjectives/latency'', DisplayName = [], Goal = 0.99\<rparr>
     = Inr ''latency'' \<and>
   SLO_HumanName \<lparr>SLO.Name = ''projects/p/services/s'', DisplayName = [], Goal = 0.99\<rparr>
     = Inl (PanicIndexOutOfRange 5 4)"
  using HumanName_partial [of "\<lparr>Service.Name = ''s1'', DisplayName = ''svc1'', Type = [], ResourceName = []\<rparr>"
                              "\<lparr>SLO.Name = ''s1'', DisplayName = ''slo1'', Goal = 0.99\<rparr>"]
        HumanName_partial [of "\<lparr>Service.Name = ''projects/p/services/checkout'', DisplayName = [], Type = [], ResourceName = []\<rparr>"
                              "\<lparr>SLO.Name = ''projects/p/services/s/serviceLevelObjectives/latency'', DisplayName = [], Goal = 0.99\<rparr>"]
        HumanName_partial [of "\<lparr>Service.Name = ''s1'', DisplayName = [], Type = [], ResourceName = []\<rparr>"
                              "\<lparr>SLO.Name = ''projects/p/services/s'', DisplayName = [], Goal = 0.99\<rparr>"]
  by simp

lemma sint_f2i: "- (2 ^ 63) \<le> trunc d \<Longrightarrow> trunc d < 2 ^ 63 \<Longrightarrow> sint (float64_to_int64 d) = trunc d"
  by (simp add: float64_to_int64_def Let_def sint_sbintrunc' signed_take_bit_int_eq_self)

subsection \<open>Counters\<close>

text \<open>
  Claim C7. \<open>getCounter\<close> issues one query. With no series in the answer it returns 0 and
  no error. With exactly one series holding exactly one point it returns the value of that
  point: for the value type DOUBLE the double value converted to int64, which discards the
  fraction (truncation towards zero, not rounding), for INT64 the integer value. More than
  one series, a number of points other than one, and any other value type are errors.
\<close>

theorem getCounter_result:
  assumes "ListTimeSeries sd tr (getCounter_req cfg start end f) = Inr series"
  shows "snd (getCounter sd cfg start end f tr) = tr @ [EvListTimeSeries (getCounter_req cfg start end f)] \<and>
    (series = [] \<longrightarrow> fst (getCounter sd cfg start end f tr) = Inr 0) \<and>
    (\<forall>s p. series = [s] \<and> Points s = [p] \<and> ValueType s = DOUBLE \<longrightarrow>
       fst (getCounter sd cfg start end f tr) = Inr (float64_to_int64 (GetDoubleValue p))) \<and>
    (\<forall>s d. series = [s] \<and> Points s = [DoubleValue d] \<and> ValueType s = DOUBLE \<and>
        - (2 ^ 63) \<le> trunc d \<and> trunc d < 2 ^ 63 \<longrightarrow>
       (\<exists>n. fst (getCounter sd cfg start end f tr) = Inr n \<and>
            sint n = (if 0 \<le> d then \<lfloor>d\<rfloor> else \<lceil>d\<rceil>))) \<and>
    (\<forall>s p. series = [s] \<and> Points s = [p] \<and> ValueType s = INT64 \<longrightarrow>
       fst (getCounter sd cfg start end f tr) = Inr (GetInt64Value p)) \<and>
    (1 < length series \<longrightarrow>
       fst (getCounter sd cfg start end f tr) = Inl (ExpectedOneSeries (length series))) \<and>
    (\<forall>s. series = [s] \<and> length (Points s) \<noteq> 1 \<longrightarrow>
       fst (getCounter sd cfg start end f tr) = Inl (ExpectedOnePoint (length (Points s)))) \<and>
    (\<forall>s. series = [s] \<and> length (Points s) = 1 \<and> ValueType s \<noteq> DOUBLE \<and> ValueType s \<noteq> INT64 \<longrightarrow>
       fst (getCounter sd cfg start end f tr) = Inl UnexpectedValueType)"
  using assms
  by (auto simp add: getCounter_def Let_def GetDoubleValue_def sint_f2i trunc_def)


theorem getCounter_result_witness:
  "fst (getCounter sd_counters cfg0 day_start day_end ''none'' []) = Inr 0 \<and>
   fst (getCounter sd_counters cfg0 day_start day_end ''fraction'' []) = Inr 5 \<and>
   fst (getCounter sd_counters cfg0 day_start day_end ''good'' []) = Inr 10 \<and>
   fst (getCounter sd_counters cfg0 day_start day_end ''two'' []) = Inl (ExpectedOneSeries 2) \<and>
   fst (getCounter sd_counters cfg0 day_start day_end ''nopoints'' []) = Inl (ExpectedOnePoint 0) \<and>
   fst (getCounter sd_counters cfg0 day_start day_end ''bool'' []) = Inl UnexpectedValueType"
  using getCounter_result [of sd_counters "[]" cfg0 day_start day_end "''none''" "[]"]
        getCounter_result [of sd_counters "[]" cfg0 day_start day_end "''fraction''"
                              "[series_of DOUBLE (DoubleValue (57 / 10))]"]
        getCounter_result [of sd_counters "[]" cfg0 day_start day_end "''good''"
                              "[series_of INT64 (Int64Value 10)]"]
        getCounter_result [of sd_counters "[]" cfg0 day_start day_end "''two''"
                              "[series_of INT64 (Int64Value 1), series_of INT64 (Int64Value 2)]"]
        getCounter_result [of sd_counters "[]" cfg0 day_start day_end "''nopoints''"
                              "[\<lparr>Labels = [], ValueType = INT64, Points = []\<rparr>]"]
        getCounter_result [of sd_counters "[]" cfg0 day_start day_end "''bool''"
                              "[series_of BOOL (BoolValue True)]"]
  by (simp add: sd_counters_def getCounter_req_def series_of_def GetDoubleValue_def GetInt64Value_def
        float64_to_int64_def trunc_def)

subsection \<open>Two of three filters\<close>

lemma getGoodTotal2_sli_good_total:
  assumes "GoodFilter sli \<noteq> []" "TotalFilter sli \<noteq> []"
    and "fst (getCounter sd cfg start end (GoodFilter sli) tr) = Inr g"
    and "fst (getCounter sd cfg start end (TotalFilter sli)
                (snd (getCounter sd cfg start end (GoodFilter sli) tr))) = Inr t"
  shows "getGoodTotal2_sli sd cfg sli start end tr =
           (Inr (g, t), snd (getCounter sd cfg start end (TotalFilter sli)
                               (snd (getCounter sd cfg start end (GoodFilter sli) tr))))"
  using assms by (auto simp add: getGoodTotal2_sli_def split: prod.splits sum.splits)

lemma getGoodTotal2_sli_good_bad:
  assumes "GoodFilter sli \<noteq> []" "BadFilter sli \<noteq> []" "TotalFilter sli = []"
    and "fst (getCounter sd cfg start end (GoodFilter sli) tr) = Inr g"
    and "fst (getCounter sd cfg start end (BadFilter sli)
                (snd (getCounter sd cfg start end (GoodFilter sli) tr))) = Inr b"
  shows "getGoodTotal2_sli sd cfg sli start end tr =
           (Inr (g, g + b), snd (getCounter sd cfg start end (BadFilter sli)
                               (snd (getCounter sd cfg start end (GoodFilter sli) tr))))"
  using assms by (auto simp add: getGoodTotal2_sli_def split: prod.splits sum.splits)

lemma getGoodTotal2_sli_bad_total:
  assumes "BadFilter sli \<noteq> []" "TotalFilter sli \<noteq> []" "GoodFilter sli = []"
    and "fst (getCounter sd cfg start end (BadFilter sli) tr) = Inr b"
    and "fst (getCounter sd cfg start end (TotalFilter sli)
                (snd (getCounter sd cfg start end (BadFilter sli) tr))) = Inr t"
  shows "getGoodTotal2_sli sd cfg sli start end tr =
           (Inr (t - b, t), snd (getCounter sd cfg start end (TotalFilter sli)
                               (snd (getCounter sd cfg start end (BadFilter sli) tr))))"
  using assms by (auto simp add: getGoodTotal2_sli_def split: prod.splits sum.splits)

text \<open>
  Claim C4. With the good and the total filter set, \<open>getGoodTotal\<close> returns the two counters
  as queried; with the good and the bad filter set (and no total filter) it returns good and
  good + bad; with the bad and the total filter set (and no good filter) it returns
  total - bad and total. Hence, on counters with good + bad = total, the three
  configurations of two filters return the same pair.
\<close>

theorem getGoodTotal2_two_of_three:
  "(GoodFilter sli \<noteq> [] \<and> TotalFilter sli \<noteq> [] \<and>
      getCounter sd cfg start end (GoodFilter sli) tr = (Inr g, tr1) \<and>
      getCounter sd cfg start end (TotalFilter sli) tr1 = (Inr t, tr2) \<longrightarrow>
      getGoodTotal2_sli sd cfg sli start end tr = (Inr (g, t), tr2)) \<and>
   (GoodFilter sli \<noteq> [] \<and> BadFilter sli \<noteq> [] \<and> TotalFilter sli = [] \<and>
      getCounter sd cfg start end (GoodFilter sli) tr = (Inr g, tr1) \<and>
      getCounter sd cfg start end (BadFilter sli) tr1 = (Inr b, tr2) \<longrightarrow>
      getGoodTotal2_sli sd cfg sli start end tr = (Inr (g, g + b), tr2)) \<and>
   (BadFilter sli \<noteq> [] \<and> TotalFilter sli \<noteq> [] \<and> GoodFilter sli = [] \<and>
      getCounter sd cfg start end (BadFilter sli) tr = (Inr b, tr1) \<and>
      getCounter sd cfg start end (TotalFilter sli) tr1 = (Inr t, tr2) \<longrightarrow>
      getGoodTotal2_sli sd cfg sli start end tr = (Inr (t - b, t), tr2)) \<and>
   (RequestBasedSLI (SLI slo) = Some r \<and> GoodTotalRatioSLI r = Some sli \<longrightarrow>
      getGoodTotal2 sd cfg slo start end tr = getGoodTotal2_sli sd cfg sli start end tr) \<and>
   (fg \<noteq> [] \<and> fb \<noteq> [] \<and> ft \<noteq> [] \<and> g + b = t \<and>
      (\<forall>h. fst (getCounter sd cfg start end fg h) = Inr g) \<and>
      (\<forall>h. fst (getCounter sd cfg start end fb h) = Inr b) \<and>
      (\<forall>h. fst (getCounter sd cfg start end ft h) = Inr t) \<longrightarrow>
      fst (getGoodTotal2_sli sd cfg \<lparr>GoodFilter = fg, BadFilter = [], TotalFilter = ft\<rparr> start end tr)
        = Inr (g, t) \<and>
      fst (getGoodTotal2_sli sd cfg \<lparr>GoodFilter = fg, BadFilter = fb, TotalFilter = []\<rparr> start end tr)
        = Inr (g, t) \<and>
      fst (getGoodTotal2_sli sd cfg \<lparr>GoodFilter = [], BadFilter = fb, TotalFilter = ft\<rparr> start end tr)
        = Inr (g, t))"
proof (intro conjI impI)
  assume "GoodFilter sli \<noteq> [] \<and> TotalFilter sli \<noteq> [] \<and>
      getCounter sd cfg start end (GoodFilter sli) tr = (Inr g, tr1) \<and>
      getCounter sd cfg start end (TotalFilter sli) tr1 = (Inr t, tr2)"
  then show "getGoodTotal2_sli sd cfg sli start end tr = (Inr (g, t), tr2)"
    using getGoodTotal2_sli_good_total [of sli sd cfg start "end" tr g t] by simp
next
  assume "GoodFilter sli \<noteq> [] \<and> BadFilter sli \<noteq> [] \<and> TotalFilter sli = [] \<and>
      getCounter sd cfg start end (GoodFilter sli) tr = (Inr g, tr1) \<and>
      getCounter sd cfg start end (BadFilter sli) tr1 = (Inr b, tr2)"
  then show "getGoodTotal2_sli sd cfg sli start end tr = (Inr (g, g + b), tr2)"
    using getGoodTotal2_sli_good_bad [of sli sd cfg start "end" tr g b] by simp
next
  assume "BadFilter sli \<noteq> [] \<and> TotalFilter sli \<noteq> [] \<and> GoodFilter sli = [] \<and>
      getCounter sd cfg start end (BadFilter sli) tr = (Inr b, tr1) \<and>
      getCounter sd cfg start end (TotalFilter sli) tr1 = (Inr t, tr2)"
  then show "getGoodTotal2_sli sd cfg sli start end tr = (Inr (t - b, t), tr2)"
    using getGoodTotal2_sli_bad_total [of sli sd cfg start "end" tr b t] by simp
next
  assume "RequestBasedSLI (SLI slo) = Some r \<and> GoodTotalRatioSLI r = Some sli"
  then show "getGoodTotal2 sd cfg slo start end tr = getGoodTotal2_sli sd cfg sli start end tr"
    by (simp add: getGoodTotal2_def)
next
  assume a: "fg \<noteq> [] \<and> fb \<noteq> [] \<and> ft \<noteq> [] \<and> g + b = t \<and>
      (\<forall>h. fst (getCounter sd cfg start end fg h) = Inr g) \<and>
      (\<forall>h. fst (getCounter sd cfg start end fb h) = Inr b) \<and>
      (\<forall>h. fst (getCounter sd cfg start end ft h) = Inr t)"
  show "fst (getGoodTotal2_sli sd cfg \<lparr>GoodFilter = fg, BadFilter = [], TotalFilter = ft\<rparr> start end tr)
        = Inr (g, t)"
    using a getGoodTotal2_sli_good_total
            [of "\<lparr>GoodFilter = fg, BadFilter = [], TotalFilter = ft\<rparr>" sd cfg start "end" tr g t]
    by simp
  show "fst (getGoodTotal2_sli sd cfg \<lparr>GoodFilter = fg, BadFilter = fb, TotalFilter = []\<rparr> start end tr)
        = Inr (g, t)"
    using a getGoodTotal2_sli_good_bad
            [of "\<lparr>GoodFilter = fg, BadFilter = fb, TotalFilter = []\<rparr>" sd cfg start "end" tr g b]
    by simp
  show "fst (getGoodTotal2_sli sd cfg \<lparr>GoodFilter = [], BadFilter = fb, TotalFilter = ft\<rparr> start end tr)
        = Inr (g, t)"
    using a getGoodTotal2_sli_bad_total
            [of "\<lparr>GoodFilter = [], BadFilter = fb, TotalFilter = ft\<rparr>" sd cfg start "end" tr b t]
    by auto
qed

theorem getGoodTotal2_two_of_three_witness:
  "fst (getGoodTotal2_sli sd_counters cfg0
          \<lparr>GoodFilter = ''good'', BadFilter = [], TotalFilter = ''total''\<rparr> day_start day_end [])
     = Inr (10, 15) \<and>
   fst (getGoodTotal2_sli sd_counters cfg0
          \<lparr>GoodFilter = ''good'', BadFilter = ''bad'', TotalFilter = []\<rparr> day_start day_end [])
     = Inr (10, 15) \<and>
   fst (getGoodTotal2_sli sd_counters cfg0
          \<lparr>GoodFilter = [], BadFilter = ''bad'', TotalFilter = ''total''\<rparr> day_start day_end [])
     = Inr (10, 15)"
  using getGoodTotal2_two_of_three
          [where sd = sd_counters and cfg = cfg0 and start = day_start and ?end = day_end
             and tr = "[]" and fg = "''good''" and fb = "''bad''" and ft = "''total''"
             and g = 10 and b = 5 and t = 15]
  by (simp add: getCounter_def sd_counters_def getCounter_req_def series_of_def GetInt64Value_def)

subsection \<open>Fewer than two filters\<close>

lemma metricQueries_append: "metricQueries (a @ b) = metricQueries a @ metricQueries b"
  by (induction a rule: metricQueries.induct) simp_all

lemma newRecords_days_failing:
  assumes "\<And>s e h. \<exists>err. goodTotal s e h = (Inl err, h)"
  shows "(\<forall>rows'. fst (newRecords_days E goodTotal svc slo existing l days rows tr) = Inr rows'
            \<longrightarrow> rows' = rows) \<and>
         metricQueries (snd (newRecords_days E goodTotal svc slo existing l days rows tr))
            = metricQueries tr"
proof (induction days arbitrary: rows tr)
  case Nil
  show ?case by simp
next
  case (Cons d days)
  obtain err where g: "goodTotal (daysAgoMidnightTimestamp (timeNow E tr) l d)
       (daysAgoMidnightTimestamp (timeNow E (tr @ [EvNow])) l (d - 1)) (tr @ [EvNow, EvNow])
        = (Inl err, tr @ [EvNow, EvNow])"
    using assms by blast
  show ?case
    using Cons.IH [of rows "tr @ [EvNow, EvNow]"] g
    by (auto simp add: Let_def metricQueries_append split: sum.splits)
qed

text \<open>
  Claim C5. When fewer than two of the three filters are set, \<open>getGoodTotal\<close> returns the
  error "expected 2 out of 3 filter expressions" and never counts; it issues no query.
  \<open>newRecords\<close> then contributes no row for the SLO: it does not return a non-empty list,
  and it issues no metric query either.
\<close>

theorem getGoodTotal2_incomplete:
  assumes "(if GoodFilter sli = [] then 0 else 1) + (if BadFilter sli = [] then 0 else 1)
             + (if TotalFilter sli = [] then 0 else (1::nat)) < 2"
  shows "getGoodTotal2_sli sd cfg sli start end tr = (Inl ExpectedTwoOfThree, tr) \<and>
    (RequestBasedSLI (SLI slo) = Some r \<and> GoodTotalRatioSLI r = Some sli \<longrightarrow>
       getGoodTotal2 sd cfg slo start end tr = (Inl ExpectedTwoOfThree, tr) \<and>
       (\<forall>rows. fst (newRecords2 E cfg svc slo existing sd tr) \<noteq> Inr rows \<or> rows = []) \<and>
       metricQueries (snd (newRecords2 E cfg svc slo existing sd tr)) = metricQueries tr)"
proof -
  have a: "\<And>s e h. getGoodTotal2_sli sd cfg sli s e h = (Inl ExpectedTwoOfThree, h)"
    using assms by (auto simp add: getGoodTotal2_sli_def split: if_splits)
  have c: "getGoodTotal2 sd cfg slo start end tr = (Inl ExpectedTwoOfThree, tr) \<and>
       (\<forall>rows. fst (newRecords2 E cfg svc slo existing sd tr) \<noteq> Inr rows \<or> rows = []) \<and>
       metricQueries (snd (newRecords2 E cfg svc slo existing sd tr)) = metricQueries tr"
    if r: "RequestBasedSLI (SLI slo) = Some r" "GoodTotalRatioSLI r = Some sli"
  proof -
    have b: "\<And>s e h. \<exists>err. getGoodTotal2 sd cfg slo s e h = (Inl err, h)"
      using r a by (simp add: getGoodTotal2_def)
    show ?thesis
    proof (cases "time_LoadLocation E (TimeZone cfg)")
      case (Inl err)
      then show ?thesis using r a by (simp add: getGoodTotal2_def newRecords2_def)
    next
      case (Inr l)
      then show ?thesis
        using r a newRecords_days_failing
                [of "getGoodTotal2 sd cfg slo" E svc slo existing l "[1 .. backfillDays E]" "[]" tr, OF b]
        by (auto simp add: getGoodTotal2_def newRecords2_def)
    qed
  qed
  show ?thesis using a c by blast
qed

theorem getGoodTotal2_incomplete_witness:
  "getGoodTotal2 sd_counters cfg0 slo_good_only day_start day_end [] = (Inl ExpectedTwoOfThree, []) \<and>
   metricQueries (snd (newRecords2 test_env cfg0 svc1 slo_good_only Map.empty sd_counters [])) = []"
  using getGoodTotal2_incomplete
          [where sli = "\<lparr>GoodFilter = ''good'', BadFilter = [], TotalFilter = []\<rparr>"
             and slo = slo_good_only
             and r = "\<lparr>GoodTotalRatioSLI =
               Some \<lparr>GoodFilter = ''good'', BadFilter = [], TotalFilter = []\<rparr>\<rparr>"
             and sd = sd_counters and cfg = cfg0 and start = day_start and ?end = day_end
             and tr = "[]" and E = test_env and svc = svc1 and existing = Map.empty]
  by (simp add: slo_good_only_def)

subsection \<open>The query of \<open>select_slo_counts\<close>\<close>





subsection \<open>The index of existing data\<close>

lemma readBQMap_rows_error:
  "\<exists>row \<in> set rows. Service row = [] \<or> SLO row = [] \<or> Date row = []
     \<Longrightarrow> readBQMap_rows rows result = Inl ExpectedFieldsSet"
  by (induction rows arbitrary: result) auto

lemma Check_Add:
  "Check (Add b s l d) s' l' d' \<longleftrightarrow> (s' = s \<and> l' = l \<and> d' = d) \<or> Check b s' l' d'"
  by (auto simp add: Check_def Add_def)

lemma readBQMap_rows_ok:
  "\<forall>row \<in> set rows. Service row \<noteq> [] \<and> SLO row \<noteq> [] \<and> Date row \<noteq> []
     \<Longrightarrow> \<exists>m. readBQMap_rows rows result = Inr m \<and>
            (\<forall>service slo date. Check m service slo date \<longleftrightarrow>
               Check result service slo date \<or>
               (\<exists>row \<in> set rows. Service row = service \<and> SLO row = slo \<and> Date row = date))"
proof (induction rows arbitrary: result)
  case Nil
  show ?case by simp
next
  case (Cons row rows)
  from Cons.prems have "\<forall>row \<in> set rows. Service row \<noteq> [] \<and> SLO row \<noteq> [] \<and> Date row \<noteq> []"
    by simp
  from Cons.IH [OF this, of "Add result (Service row) (SLO row) (Date row)"]
  obtain m where m: "readBQMap_rows rows (Add result (Service row) (SLO row) (Date row)) = Inr m"
    and c: "\<And>service slo date. Check m service slo date \<longleftrightarrow>
               Check (Add result (Service row) (SLO row) (Date row)) service slo date \<or>
               (\<exists>row \<in> set rows. Service row = service \<and> SLO row = slo \<and> Date row = date)"
    by blast
  have "readBQMap_rows (row # rows) result = Inr m"
    using Cons.prems m by simp
  moreover have "Check m service slo date \<longleftrightarrow> Check result service slo date \<or>
       (\<exists>r \<in> set (row # rows). Service r = service \<and> SLO r = slo \<and> Date r = date)"
    for service slo date
    by (simp only: c Check_Add set_simps bex_simps) blast
  ultimately show ?case by blast
qed

text \<open>
  Claim C9. When the query of \<open>readBQMap\<close> returns rows of which one has an empty Service, SLO
  or Date, \<open>readBQMap\<close> returns an error. Otherwise it returns a map for which
  \<open>Check service slo date\<close> holds exactly for the triples (Service, SLO, Date) of the rows
  returned, compared as strings.
\<close>

theorem readBQMap_index:
  assumes "time_LoadLocation E (TimeZone cfg) = Inr l"
    and "Query client (tr @ [EvNow])
           (readBQMap_query cfg
              (Time_Format_date (daysAgoMidnightTimestamp (time_Now E tr) l (backfillDays E))))
         = Inr rows"
  shows "((\<exists>row \<in> set rows. Service row = [] \<or> SLO row = [] \<or> Date row = []) \<longrightarrow>
            fst (readBQMap E client cfg tr) = Inl ExpectedFieldsSet) \<and>
         ((\<forall>row \<in> set rows. Service row \<noteq> [] \<and> SLO row \<noteq> [] \<and> Date row \<noteq> []) \<longrightarrow>
            (\<exists>m. fst (readBQMap E client cfg tr) = Inr m \<and>
                 (\<forall>service slo date. Check m service slo date \<longleftrightarrow>
                    (\<exists>row \<in> set rows. Service row = service \<and> SLO row = slo \<and> Date row = date))))"
proof -
  have r: "fst (readBQMap E client cfg tr) = readBQMap_rows rows Map.empty"
    using assms by (simp add: readBQMap_def Let_def)
  have e: "\<And>service slo date. \<not> Check Map.empty service slo date"
    by (simp add: Check_def)
  have 1: "fst (readBQMap E client cfg tr) = Inl ExpectedFieldsSet"
    if "\<exists>row \<in> set rows. Service row = [] \<or> SLO row = [] \<or> Date row = []"
    unfolding r using that by (rule readBQMap_rows_error)
  have 2: "\<exists>m. fst (readBQMap E client cfg tr) = Inr m \<and>
                 (\<forall>service slo date. Check m service slo date \<longleftrightarrow>
                    (\<exists>row \<in> set rows. Service row = service \<and> SLO row = slo \<and> Date row = date))"
    if "\<forall>row \<in> set rows. Service row \<noteq> [] \<and> SLO row \<noteq> [] \<and> Date row \<noteq> []"
    unfolding r using readBQMap_rows_ok [OF that, of Map.empty] by (simp add: e)
  show ?thesis
    using 1 2 by (intro conjI impI)
qed

theorem readBQMap_index_witness:
  "fst (readBQMap test_env bq_empty_service cfg0 []) = Inl ExpectedFieldsSet \<and>
   (\<exists>m. fst (readBQMap test_env (bq_test [] None) cfg0 []) = Inr m \<and>
        Check m ''svc1'' ''slo1'' ''2015-05-08'' \<and>
        Check m ''svc1'' ''slo2'' ''2015-05-09'' \<and>
        \<not> Check m ''svc1'' ''slo1'' ''2015-05-09'')"
proof -
  have a: "fst (readBQMap test_env bq_empty_service cfg0 []) = Inl ExpectedFieldsSet"
    using readBQMap_index [where E = test_env and cfg = cfg0 and l = London2015 and tr = "[]"
          and client = bq_empty_service and rows = "[row_key [] ''slo2'' ''2015-01-01'']"]
    by (simp add: test_env_def cfg0_def bq_empty_service_def row_key_def)
  have "\<exists>m. fst (readBQMap test_env (bq_test [] None) cfg0 []) = Inr m \<and>
          (\<forall>service slo date. Check m service slo date \<longleftrightarrow>
             (''svc1'' = service \<and> ''slo1'' = slo \<and> ''2015-05-08'' = date \<or>
              ''svc1'' = service \<and> ''slo2'' = slo \<and> ''2015-05-09'' = date))"
    using readBQMap_index [where E = test_env and cfg = cfg0 and l = London2015 and tr = "[]"
          and client = "bq_test [] None"
          and rows = "[row_key ''svc1'' ''slo1'' ''2015-05-08'', row_key ''svc1'' ''slo2'' ''2015-05-09'']"]
    by (simp add: test_env_def cfg0_def bq_test_def row_key_def)
  then obtain m where m: "fst (readBQMap test_env (bq_test [] None) cfg0 []) = Inr m"
    and c: "\<And>service slo date. Check m service slo date \<longleftrightarrow>
             (''svc1'' = service \<and> ''slo1'' = slo \<and> ''2015-05-08'' = date \<or>
              ''svc1'' = service \<and> ''slo2'' = slo \<and> ''2015-05-09'' = date)"
    by blast
  have "Check m ''svc1'' ''slo1'' ''2015-05-08''" "Check m ''svc1'' ''slo2'' ''2015-05-09''"
       "\<not> Check m ''svc1'' ''slo1'' ''2015-05-09''"
    by (simp_all add: c)
  with a m show ?thesis by blast
qed

subsection \<open>The lease\<close>





subsection \<open>New records of one SLO\<close>

lemma Check_empty: "\<not> Check Map.empty service slo date"
  by (simp add: Check_def)

lemma getGoodTotal_trace:
  "snd (getGoodTotal sd cfg slo start end h) = h @ [EvListTimeSeries (getGoodTotal_req cfg slo start end)]"
  by (simp add: getGoodTotal_def Let_def split: sum.splits prod.splits)

lemma newRecords_days_unindexed:
  "fst (newRecords_days E goodTotal svc slo existing l days rows tr) = Inr rows'
     \<Longrightarrow> \<exists>new. rows' = rows @ new \<and> length new \<le> length days \<and>
               (\<forall>r \<in> set new. \<not> Check existing (Service r) (SLO r) (Date r))"
proof (induction days arbitrary: rows tr)
  case Nil
  then show ?case by simp
next
  case (Cons d days)
  let ?start = "daysAgoMidnightTimestamp (timeNow E tr) l d"
  let ?end = "daysAgoMidnightTimestamp (timeNow E (tr @ [EvNow])) l (d - 1)"
  let ?tr2 = "tr @ [EvNow, EvNow]"
  obtain service where s: "Service_HumanName svc = Inr service"
    using Cons.prems by (cases "Service_HumanName svc") (simp_all add: Let_def)
  obtain sloName where n: "SLO_HumanName slo = Inr sloName"
    using Cons.prems s by (cases "SLO_HumanName slo") (simp_all add: Let_def)
  show ?case
  proof (cases "Check existing service sloName (Time_Format_date ?start)")
    case True
    then have "newRecords_days E goodTotal svc slo existing l (d # days) rows tr
                 = newRecords_days E goodTotal svc slo existing l days rows ?tr2"
      using s n by (simp add: Let_def)
    then have "fst (newRecords_days E goodTotal svc slo existing l days rows ?tr2) = Inr rows'"
      using Cons.prems by simp
    from Cons.IH [OF this]
    obtain new where "rows' = rows @ new" and "length new \<le> length days"
      and "\<forall>r \<in> set new. \<not> Check existing (Service r) (SLO r) (Date r)"
      by blast
    then show ?thesis by (intro exI [of _ new]) simp
  next
    case False
    obtain res tr3 where g: "goodTotal ?start ?end ?tr2 = (res, tr3)"
      by (cases "goodTotal ?start ?end ?tr2") blast
    show ?thesis
    proof (cases res)
      case (Inl err)
      then show ?thesis using Cons.prems s n False g by (simp add: Let_def)
    next
      case (Inr gt)
      obtain good tot where gt: "gt = (good, tot)" by (cases gt) blast
      let ?row = "\<lparr>Service = service, SLO = sloName, Date = Time_Format_date ?start,
                     Total = tot, Good = good, Target = Goal slo\<rparr>"
      have "newRecords_days E goodTotal svc slo existing l (d # days) rows tr
                 = newRecords_days E goodTotal svc slo existing l days (rows @ [?row]) tr3"
        using s n False g Inr gt by (simp add: Let_def)
      then have "fst (newRecords_days E goodTotal svc slo existing l days (rows @ [?row]) tr3)
                   = Inr rows'"
        using Cons.prems by simp
      from Cons.IH [OF this]
      obtain new where "rows' = (rows @ [?row]) @ new" and "length new \<le> length days"
          and "\<forall>r \<in> set new. \<not> Check existing (Service r) (SLO r) (Date r)"
        by blast
      then show ?thesis using False by (intro exI [of _ "?row # new"]) simp
    qed
  qed
qed

lemma newRecords_days_fresh:
  assumes s: "Service_HumanName svc = Inr service" and n: "SLO_HumanName slo = Inr sloName"
    and stable: "\<And>h d. daysAgoMidnightTimestamp (timeNow E h) l d = daysAgoMidnightTimestamp now l d"
    and one: "\<And>st en h. snd (goodTotal st en h) = h @ [EvListTimeSeries (req st en)]"
  shows
    "(\<exists>k. metricQueries (snd (newRecords_days E goodTotal svc slo existing l days rows tr))
            = metricQueries tr @
              map (\<lambda>d. req (daysAgoMidnightTimestamp now l d) (daysAgoMidnightTimestamp now l (d - 1)))
                (take k (filter (\<lambda>d. \<not> Check existing service sloName
                                   (Time_Format_date (daysAgoMidnightTimestamp now l d))) days))) \<and>
     (\<forall>rows'. fst (newRecords_days E goodTotal svc slo existing l days rows tr) = Inr rows' \<longrightarrow>
        metricQueries (snd (newRecords_days E goodTotal svc slo existing l days rows tr))
            = metricQueries tr @
              map (\<lambda>d. req (daysAgoMidnightTimestamp now l d) (daysAgoMidnightTimestamp now l (d - 1)))
                (filter (\<lambda>d. \<not> Check existing service sloName
                                   (Time_Format_date (daysAgoMidnightTimestamp now l d))) days) \<and>
        (\<exists>new. rows' = rows @ new \<and>
           map Date new = map (\<lambda>d. Time_Format_date (daysAgoMidnightTimestamp now l d))
                (filter (\<lambda>d. \<not> Check existing service sloName
                                   (Time_Format_date (daysAgoMidnightTimestamp now l d))) days) \<and>
           (\<forall>r \<in> set new. Service r = service \<and> SLO r = sloName \<and> Target r = Goal slo)))"
    (is "?P days rows tr")
proof (induction days arbitrary: rows tr)
  case Nil
  show ?case by simp
next
  case (Cons d days)
  let ?start = "daysAgoMidnightTimestamp now l d"
  let ?end = "daysAgoMidnightTimestamp now l (d - 1)"
  let ?tr2 = "tr @ [EvNow, EvNow]"
  let ?fresh = "\<lambda>d. \<not> Check existing service sloName
                                   (Time_Format_date (daysAgoMidnightTimestamp now l d))"
  let ?rq = "\<lambda>d. req (daysAgoMidnightTimestamp now l d) (daysAgoMidnightTimestamp now l (d - 1))"
  have q2: "metricQueries ?tr2 = metricQueries tr"
    by (simp add: metricQueries_append)
  show ?case
  proof (cases "?fresh d")
    case False
    then have e: "newRecords_days E goodTotal svc slo existing l (d # days) rows tr
                 = newRecords_days E goodTotal svc slo existing l days rows ?tr2"
      using s n by (simp add: Let_def stable)
    have f: "filter ?fresh (d # days) = filter ?fresh days"
      using False by simp
    show ?thesis
      unfolding e f using Cons.IH [of rows ?tr2, unfolded q2] .
  next
    case True
    obtain res tr3 where g: "goodTotal ?start ?end ?tr2 = (res, tr3)"
      by (cases "goodTotal ?start ?end ?tr2") blast
    have tr3: "tr3 = ?tr2 @ [EvListTimeSeries (req ?start ?end)]"
      using one [of ?start ?end ?tr2] g by simp
    have q3: "metricQueries tr3 = metricQueries tr @ [?rq d]"
      by (simp add: tr3 metricQueries_append)
    show ?thesis
    proof (cases res)
      case (Inl err)
      then have e: "newRecords_days E goodTotal svc slo existing l (d # days) rows tr = (Inl err, tr3)"
        using s n True g by (simp add: Let_def stable)
      have "metricQueries tr3 = metricQueries tr @ map ?rq (take 1 (filter ?fresh (d # days)))"
        using True q3 by simp
      then show ?thesis unfolding e by (simp only: fst_conv snd_conv) blast
    next
      case (Inr gt)
      obtain good tot where gt: "gt = (good, tot)" by (cases gt) blast
      let ?row = "\<lparr>Service = service, SLO = sloName, Date = Time_Format_date ?start,
                     Total = tot, Good = good, Target = Goal slo\<rparr>"
      let ?rest = "newRecords_days E goodTotal svc slo existing l days (rows @ [?row]) tr3"
      have e: "newRecords_days E goodTotal svc slo existing l (d # days) rows tr = ?rest"
        using s n True g Inr gt by (simp add: Let_def stable)
      from Cons.IH [of "rows @ [?row]" tr3]
      obtain k where k: "metricQueries (snd ?rest)
            = metricQueries tr3 @ map ?rq (take k (filter ?fresh days))"
        and ok: "\<And>rows'. fst ?rest = Inr rows' \<Longrightarrow>
           metricQueries (snd ?rest) = metricQueries tr3 @ map ?rq (filter ?fresh days) \<and>
           (\<exists>new. rows' = (rows @ [?row]) @ new \<and>
              map Date new = map (\<lambda>d. Time_Format_date (daysAgoMidnightTimestamp now l d))
                               (filter ?fresh days) \<and>
              (\<forall>r \<in> set new. Service r = service \<and> SLO r = sloName \<and> Target r = Goal slo))"
        by blast
      have 1: "\<exists>k. metricQueries (snd ?rest)
            = metricQueries tr @ map ?rq (take k (filter ?fresh (d # days)))"
        using k True q3 by (intro exI [of _ "Suc k"]) simp
      have 2: "metricQueries (snd ?rest)
                 = metricQueries tr @ map ?rq (filter ?fresh (d # days)) \<and>
               (\<exists>new. rows' = rows @ new \<and>
                  map Date new = map (\<lambda>d. Time_Format_date (daysAgoMidnightTimestamp now l d))
                               (filter ?fresh (d # days)) \<and>
                  (\<forall>r \<in> set new. Service r = service \<and> SLO r = sloName \<and> Target r = Goal slo))"
        if "fst ?rest = Inr rows'" for rows'
      proof -
        from ok [OF that] obtain new where
          a: "metricQueries (snd ?rest) = metricQueries tr3 @ map ?rq (filter ?fresh days)"
          and b: "rows' = (rows @ [?row]) @ new"
          and c: "map Date new = map (\<lambda>d. Time_Format_date (daysAgoMidnightTimestamp now l d))
                               (filter ?fresh days)"
          and d: "\<forall>r \<in> set new. Service r = service \<and> SLO r = sloName \<and> Target r = Goal slo"
          by blast
        have "metricQueries (snd ?rest) = metricQueries tr @ map ?rq (filter ?fresh (d # days))"
          using a q3 True by simp
        moreover have "rows' = rows @ (?row # new)" using b by simp
        moreover have "map Date (?row # new)
             = map (\<lambda>d. Time_Format_date (daysAgoMidnightTimestamp now l d)) (filter ?fresh (d # days))"
          using c True by simp
        moreover have "\<forall>r \<in> set (?row # new). Service r = service \<and> SLO r = sloName \<and> Target r = Goal slo"
          using d by simp
        ultimately show ?thesis by blast
      qed
      show ?thesis unfolding e using 1 2 by blast
    qed
  qed
qed



text \<open>
  Claim C1. The rows \<open>newRecords\<close> returns never carry a key that is in the index of existing
  data, and there are at most \<open>backfillDays\<close> of them. When both names exist and every
  reading of the clock gives the day boundaries of one instant \<open>now\<close> (the run does not
  cross a local midnight), let the fresh days be the \<open>daysAgo\<close> from 1 to \<open>backfillDays\<close>
  whose key (service name, SLO name, date string) is not in the index. Then the metric
  queries issued are those of the fresh days, in order, up to the first failure: none for a
  day whose key is in the index, none for \<open>daysAgo = 0\<close>. On success all of them are issued
  and the rows returned are those of the fresh days, in order.
\<close>

theorem newRecords_skips_existing:
  assumes "time_LoadLocation E (TimeZone cfg) = Inr l"
  shows
    "(\<forall>rows. fst (newRecords E cfg svc slo existing sd tr) = Inr rows \<longrightarrow>
        length rows \<le> nat (backfillDays E) \<and>
        (\<forall>r \<in> set rows. \<not> Check existing (Service r) (SLO r) (Date r))) \<and>
     (Service_HumanName svc = Inr service \<and> SLO_HumanName slo = Inr sloName \<and>
      (\<forall>h d. daysAgoMidnightTimestamp (timeNow E h) l d = daysAgoMidnightTimestamp now l d) \<longrightarrow>
        (let date = (\<lambda>d. Time_Format_date (daysAgoMidnightTimestamp now l d));
             fresh = filter (\<lambda>d. \<not> Check existing service sloName (date d)) [1 .. backfillDays E];
             req = (\<lambda>d. getGoodTotal_req cfg slo (daysAgoMidnightTimestamp now l d)
                            (daysAgoMidnightTimestamp now l (d - 1)))
         in (\<forall>d \<in> set fresh. 1 \<le> d \<and> d \<le> backfillDays E \<and>
                               \<not> Check existing service sloName (date d)) \<and>
            (\<exists>k. metricQueries (snd (newRecords E cfg svc slo existing sd tr))
                   = metricQueries tr @ map req (take k fresh)) \<and>
            (\<forall>rows. fst (newRecords E cfg svc slo existing sd tr) = Inr rows \<longrightarrow>
               metricQueries (snd (newRecords E cfg svc slo existing sd tr))
                   = metricQueries tr @ map req fresh \<and>
               map Date rows = map date fresh \<and>
               (\<forall>r \<in> set rows. Service r = service \<and> SLO r = sloName \<and> Target r = Goal slo))))"
proof -
  have e: "newRecords E cfg svc slo existing sd tr
             = newRecords_days E (getGoodTotal sd cfg slo) svc slo existing l [1 .. backfillDays E] [] tr"
    using assms by (simp add: newRecords_def)
  have a: "length rows \<le> nat (backfillDays E) \<and>
           (\<forall>r \<in> set rows. \<not> Check existing (Service r) (SLO r) (Date r))"
    if "fst (newRecords E cfg svc slo existing sd tr) = Inr rows" for rows
    using newRecords_days_unindexed [OF that [unfolded e]] by auto
  have b: "(let date = (\<lambda>d. Time_Format_date (daysAgoMidnightTimestamp now l d));
             fresh = filter (\<lambda>d. \<not> Check existing service sloName (date d)) [1 .. backfillDays E];
             req = (\<lambda>d. getGoodTotal_req cfg slo (daysAgoMidnightTimestamp now l d)
                            (daysAgoMidnightTimestamp now l (d - 1)))
         in (\<forall>d \<in> set fresh. 1 \<le> d \<and> d \<le> backfillDays E \<and>
                               \<not> Check existing service sloName (date d)) \<and>
            (\<exists>k. metricQueries (snd (newRecords E cfg svc slo existing sd tr))
                   = metricQueries tr @ map req (take k fresh)) \<and>
            (\<forall>rows. fst (newRecords E cfg svc slo existing sd tr) = Inr rows \<longrightarrow>
               metricQueries (snd (newRecords E cfg svc slo existing sd tr))
                   = metricQueries tr @ map req fresh \<and>
               map Date rows = map date fresh \<and>
               (\<forall>r \<in> set rows. Service r = service \<and> SLO r = sloName \<and> Target r = Goal slo)))"
    if s: "Service_HumanName svc = Inr service" and n: "SLO_HumanName slo = Inr sloName"
      and st: "\<And>h d. daysAgoMidnightTimestamp (timeNow E h) l d = daysAgoMidnightTimestamp now l d"
  proof -
    have f: "\<forall>d \<in> set (filter (\<lambda>d. \<not> Check existing service sloName
                 (Time_Format_date (daysAgoMidnightTimestamp now l d))) [1 .. backfillDays E]).
               1 \<le> d \<and> d \<le> backfillDays E \<and>
               \<not> Check existing service sloName (Time_Format_date (daysAgoMidnightTimestamp now l d))"
      by simp
    show ?thesis
      unfolding Let_def e
      using f newRecords_days_fresh
              [where goodTotal = "getGoodTotal sd cfg slo" and req = "getGoodTotal_req cfg slo"
                 and days = "[1 .. backfillDays E]" and rows = "[]" and tr = tr
                 and existing = existing, OF s n st getGoodTotal_trace]
      by (simp only: append_Nil) blast
  qed
  show ?thesis using a b by blast
qed

theorem newRecords_skips_existing_witness:
  "Check existing_test ''svc1'' ''slo1'' ''2015-05-08'' \<and>
   Time_Format_date (daysAgoMidnightTimestamp (time_Unix 1431270000 0) London2015 2) = ''2015-05-08'' \<and>
   fst (newRecords test_env cfg0 svc1 slo1 existing_test sd_good_bad [])
     = Inr [\<lparr>Service = ''svc1'', SLO = ''slo1'', Date = ''2015-05-09'', Total = 111, Good = 100,
              Target = 99 / 100\<rparr>] \<and>
   metricQueries (snd (newRecords test_env cfg0 svc1 slo1 existing_test sd_good_bad []))
     = [getGoodTotal_req cfg0 slo1
          (daysAgoMidnightTimestamp (time_Unix 1431270000 0) London2015 1)
          (daysAgoMidnightTimestamp (time_Unix 1431270000 0) London2015 0)]"
proof -
  have h1: "time_LoadLocation test_env (TimeZone cfg0) = Inr London2015"
    by (simp add: test_env_def cfg0_def)
  have h2: "Service_HumanName svc1 = Inr ''svc1''"
    by (simp add: Service_HumanName_def svc1_def)
  have h3: "SLO_HumanName slo1 = Inr ''slo1''"
    by (simp add: SLO_HumanName_def slo1_def)
  have h4: "\<forall>h d. daysAgoMidnightTimestamp (timeNow test_env h) London2015 d
                 = daysAgoMidnightTimestamp (time_Unix 1431270000 0) London2015 d"
    by (simp add: test_env_def)
  have c: "Check existing_test ''svc1'' ''slo1'' ''2015-05-08''"
    by (simp add: existing_test_def Check_Add)
  have d2: "Time_Format_date (daysAgoMidnightTimestamp (time_Unix 1431270000 0) London2015 2)
              = ''2015-05-08''"
    by code_simp
  have d1: "Time_Format_date (daysAgoMidnightTimestamp (time_Unix 1431270000 0) London2015 1)
              = ''2015-05-09''"
    by code_simp
  have nc: "\<not> Check existing_test ''svc1'' ''slo1'' ''2015-05-09''"
    by (simp add: existing_test_def Check_Add Check_empty)
  have up: "[1 .. backfillDays test_env] = [1, 2]"
    by (simp add: test_env_def upto.simps)
  have fr: "filter (\<lambda>d. \<not> Check existing_test ''svc1'' ''slo1''
                (Time_Format_date (daysAgoMidnightTimestamp (time_Unix 1431270000 0) London2015 d)))
              [1 .. backfillDays test_env] = [1]"
    by (simp add: up d1 d2 c nc)
  have ev: "fst (newRecords test_env cfg0 svc1 slo1 existing_test sd_good_bad [])
     = Inr [\<lparr>Service = ''svc1'', SLO = ''slo1'', Date = ''2015-05-09'', Total = 111, Good = 100,
              Target = 99 / 100\<rparr>]"
    by code_simp
  have "metricQueries (snd (newRecords test_env cfg0 svc1 slo1 existing_test sd_good_bad []))
     = [getGoodTotal_req cfg0 slo1
          (daysAgoMidnightTimestamp (time_Unix 1431270000 0) London2015 1)
          (daysAgoMidnightTimestamp (time_Unix 1431270000 0) London2015 0)]"
    using newRecords_skips_existing [OF h1, where svc = svc1 and slo = slo1
            and existing = existing_test and sd = sd_good_bad and tr = "[]"
            and service = "''svc1''" and sloName = "''slo1''" and now = "time_Unix 1431270000 0"]
          h2 h3 h4 ev
    by (simp add: Let_def fr)
  with c d2 ev show ?thesis by simp
qed

subsection \<open>Batches\<close>

text \<open>
  Claim C8, the counterexample: batches of one row and two new rows to write, both of the
  same SLO. The store is written twice, not three times: once with both rows, after the
  SLO, and once with the empty buffer at the end.
\<close>

theorem syncAllServices_batch_counterexample:
  "bqBatchSize test_env = 1 \<and>
   putCalls (snd (syncAllServices test_env cfg0 sd_good_bad sloc_one bq_no_rows []))
   = [[\<lparr>Service = ''svc1'', SLO = ''slo1'', Date = ''2015-05-09'', Total = 111, Good = 100, Target = 99 / 100\<rparr>,
       \<lparr>Service = ''svc1'', SLO = ''slo1'', Date = ''2015-05-08'', Total = 111, Good = 100, Target = 99 / 100\<rparr>],
      []]"
  by code_simp

lemma putCalls_append: "putCalls (a @ b) = putCalls a @ putCalls b"
  by (induction a rule: putCalls.induct) simp_all

lemma newRecords_days_no_put:
  assumes "\<And>st en h. putCalls (snd (goodTotal st en h)) = putCalls h"
  shows "putCalls (snd (newRecords_days E goodTotal svc slo existing l days rows tr)) = putCalls tr"
proof (induction days arbitrary: rows tr)
  case Nil
  show ?case by simp
next
  case (Cons d days)
  let ?start = "daysAgoMidnightTimestamp (timeNow E tr) l d"
  let ?end = "daysAgoMidnightTimestamp (timeNow E (tr @ [EvNow])) l (d - 1)"
  let ?tr2 = "tr @ [EvNow, EvNow]"
  have p2: "putCalls ?tr2 = putCalls tr"
    by (simp add: putCalls_append)
  obtain res tr3 where g: "goodTotal ?start ?end ?tr2 = (res, tr3)"
    by (cases "goodTotal ?start ?end ?tr2") blast
  have p3: "putCalls tr3 = putCalls tr"
    using assms [of ?start ?end ?tr2] g p2 by simp
  show ?case
    using Cons.IH p2 p3 g
    by (auto simp add: Let_def split: sum.splits prod.splits)
qed

lemma newRecords_no_put:
  "putCalls (snd (newRecords E cfg svc slo existing sd tr)) = putCalls tr"
proof -
  have "\<And>st en h. putCalls (snd (getGoodTotal sd cfg slo st en h)) = putCalls h"
    by (simp add: getGoodTotal_trace putCalls_append)
  from newRecords_days_no_put [of "getGoodTotal sd cfg slo" E svc slo existing, OF this]
  show ?thesis by (simp add: newRecords_def split: sum.splits)
qed

lemma readBQMap_no_put:
  "putCalls (snd (readBQMap E client cfg tr)) = putCalls tr"
  by (simp add: readBQMap_def Let_def putCalls_append split: sum.splits)

lemma batches_spec_append:
  "batches_spec n (xs @ ys) buf =
     (case batches_spec n xs buf of
        (w1, b1) \<Rightarrow> (case batches_spec n ys b1 of (w2, b2) \<Rightarrow> (w1 @ w2, b2)))"
  by (induction xs arbitrary: buf) (auto split: prod.splits)

lemma batches_spec_concat:
  "batches_spec n xs buf = (w, b) \<Longrightarrow> concat w @ b = buf @ concat xs"
  by (induction xs arbitrary: buf w b) (auto split: prod.splits if_splits)

lemma batches_spec_written:
  "batches_spec n xs buf = (w, b) \<Longrightarrow> \<forall>p \<in> set w. n \<le> int (length p)"
  by (induction xs arbitrary: buf w b) (auto split: prod.splits if_splits)

lemma batches_spec_left:
  "batches_spec n xs buf = (w, b) \<Longrightarrow> buf = [] \<or> int (length buf) < n \<Longrightarrow>
     b = [] \<or> int (length b) < n"
  by (induction xs arbitrary: buf w b) (auto split: prod.splits if_splits)

lemma syncAllServices_slos_batches:
  assumes nr: "\<And>h slo. slo \<in> set slos \<Longrightarrow> fst (newRecords E cfg svc slo existing sd h) = Inr (res slo)"
    and sn: "\<exists>n. Service_HumanName svc = Inr n"
    and ln: "\<And>slo. slo \<in> set slos \<Longrightarrow> \<exists>n. SLO_HumanName slo = Inr n"
    and pt: "\<And>h rows. Put bqc h (Dataset cfg) tableName rows = None"
  shows "fst (syncAllServices_slos E cfg sd bqc existing svc slos rows tr)
           = Inr (snd (batches_spec (bqBatchSize E) (map res slos) rows)) \<and>
         putCalls (snd (syncAllServices_slos E cfg sd bqc existing svc slos rows tr))
           = putCalls tr @ fst (batches_spec (bqBatchSize E) (map res slos) rows)"
  using nr ln
proof (induction slos arbitrary: rows tr)
  case Nil
  show ?case by simp
next
  case (Cons slo slos)
  obtain tr1 where n1: "newRecords E cfg svc slo existing sd tr = (Inr (res slo), tr1)"
    using Cons.prems(1) [of slo tr] by (cases "newRecords E cfg svc slo existing sd tr") simp
  have p1: "putCalls tr1 = putCalls tr"
    using newRecords_no_put [of E cfg svc slo existing sd tr] n1 by simp
  obtain a where a: "Service_HumanName svc = Inr a" using sn by blast
  obtain b where b: "SLO_HumanName slo = Inr b" using Cons.prems(2) [of slo] by auto
  have ih: "\<And>rows tr. fst (syncAllServices_slos E cfg sd bqc existing svc slos rows tr)
           = Inr (snd (batches_spec (bqBatchSize E) (map res slos) rows)) \<and>
         putCalls (snd (syncAllServices_slos E cfg sd bqc existing svc slos rows tr))
           = putCalls tr @ fst (batches_spec (bqBatchSize E) (map res slos) rows)"
    using Cons.IH Cons.prems by simp
  show ?case
  proof (cases "bqBatchSize E \<le> int (length (rows @ res slo))")
    case True
    then have e: "syncAllServices_slos E cfg sd bqc existing svc (slo # slos) rows tr
        = syncAllServices_slos E cfg sd bqc existing svc slos []
            (tr1 @ [EvPut (Dataset cfg) tableName (rows @ res slo)])"
      using n1 a b pt by (simp add: Let_def)
    show ?thesis
      unfolding e using ih [of "[]" "tr1 @ [EvPut (Dataset cfg) tableName (rows @ res slo)]"] True p1
      by (simp add: putCalls_append split: prod.splits)
  next
    case False
    then have e: "syncAllServices_slos E cfg sd bqc existing svc (slo # slos) rows tr
        = syncAllServices_slos E cfg sd bqc existing svc slos (rows @ res slo) tr1"
      using n1 a b by (simp add: Let_def)
    show ?thesis
      unfolding e using ih [of "rows @ res slo" tr1] False p1 by simp
  qed
qed

lemma syncAllServices_svcs_batches:
  assumes sl: "\<And>h svc. svc \<in> set svcs \<Longrightarrow> SLOs sloc h svc = Inr (slosOf svc)"
    and nr: "\<And>h svc slo. svc \<in> set svcs \<Longrightarrow> slo \<in> set (slosOf svc) \<Longrightarrow>
               fst (newRecords E cfg svc slo existing sd h) = Inr (res svc slo)"
    and sn: "\<And>svc. svc \<in> set svcs \<Longrightarrow> \<exists>n. Service_HumanName svc = Inr n"
    and ln: "\<And>svc slo. svc \<in> set svcs \<Longrightarrow> slo \<in> set (slosOf svc) \<Longrightarrow>
               \<exists>n. SLO_HumanName slo = Inr n"
    and pt: "\<And>h rows. Put bqc h (Dataset cfg) tableName rows = None"
  shows "fst (syncAllServices_svcs E cfg sd sloc bqc existing svcs rows tr)
           = Inr (snd (batches_spec (bqBatchSize E)
                         (concat (map (\<lambda>svc. map (res svc) (slosOf svc)) svcs)) rows)) \<and>
         putCalls (snd (syncAllServices_svcs E cfg sd sloc bqc existing svcs rows tr))
           = putCalls tr @ fst (batches_spec (bqBatchSize E)
                                  (concat (map (\<lambda>svc. map (res svc) (slosOf svc)) svcs)) rows)"
  using sl nr sn ln
proof (induction svcs arbitrary: rows tr)
  case Nil
  show ?case by simp
next
  case (Cons svc svcs)
  let ?tr1 = "tr @ [EvSLOs svc]"
  let ?B = "bqBatchSize E"
  let ?all = "concat (map (\<lambda>svc. map (res svc) (slosOf svc)) svcs)"
  have s1: "SLOs sloc tr svc = Inr (slosOf svc)"
    using Cons.prems(1) [of svc tr] by simp
  have inner: "fst (syncAllServices_slos E cfg sd bqc existing svc (slosOf svc) rows ?tr1)
           = Inr (snd (batches_spec ?B (map (res svc) (slosOf svc)) rows)) \<and>
         putCalls (snd (syncAllServices_slos E cfg sd bqc existing svc (slosOf svc) rows ?tr1))
           = putCalls ?tr1 @ fst (batches_spec ?B (map (res svc) (slosOf svc)) rows)"
    using syncAllServices_slos_batches
            [of "slosOf svc" E cfg svc existing sd "res svc" bqc rows ?tr1]
          Cons.prems(2) [of svc] Cons.prems(3) [of svc] Cons.prems(4) [of svc] pt
    by simp
  obtain w1 b1 where sp: "batches_spec ?B (map (res svc) (slosOf svc)) rows = (w1, b1)"
    by (cases "batches_spec ?B (map (res svc) (slosOf svc)) rows") blast
  obtain tr2 where r: "syncAllServices_slos E cfg sd bqc existing svc (slosOf svc) rows ?tr1
                         = (Inr b1, tr2)"
    and p2: "putCalls tr2 = putCalls tr @ w1"
    using inner sp
    by (cases "syncAllServices_slos E cfg sd bqc existing svc (slosOf svc) rows ?tr1")
       (simp add: putCalls_append)
  have e: "syncAllServices_svcs E cfg sd sloc bqc existing (svc # svcs) rows tr
             = syncAllServices_svcs E cfg sd sloc bqc existing svcs b1 tr2"
    using s1 r by simp
  have ih: "fst (syncAllServices_svcs E cfg sd sloc bqc existing svcs b1 tr2)
           = Inr (snd (batches_spec ?B ?all b1)) \<and>
         putCalls (snd (syncAllServices_svcs E cfg sd sloc bqc existing svcs b1 tr2))
           = putCalls tr2 @ fst (batches_spec ?B ?all b1)"
    by (rule Cons.IH) (meson Cons.prems list.set_intros(2))+
  show ?case
    unfolding e using ih p2 sp
    by (simp add: batches_spec_append split: prod.splits)
qed

text \<open>
  Claim C8, as amended. Let the collaborators answer without fault and without regard to
  the history: the catalogue lists the same SLOs, \<open>newRecords\<close> returns the rows
  \<open>res svc slo\<close>, and every write succeeds. Then \<open>syncAllServices\<close> succeeds and its writes
  are those of the specification's batching, applied to the rows of the SLOs in order,
  followed by one final write of the buffer that is left, empty or not. The rows of an
  SLO are appended as a whole before the length is looked at, so that a batch written
  before the end holds at least, and possibly more than, the batch size of rows; all rows
  are written once and in order.
\<close>

theorem syncAllServices_batches:
  assumes rd: "readBQMap E bqc cfg tr = (Inr existing, tr1)"
    and sv: "Services sloc tr1 = Inr svcs"
    and sl: "\<forall>h. \<forall>svc \<in> set svcs. SLOs sloc h svc = Inr (slosOf svc)"
    and nr: "\<forall>h. \<forall>svc \<in> set svcs. \<forall>slo \<in> set (slosOf svc).
               fst (newRecords E cfg svc slo existing sd h) = Inr (res svc slo)"
    and sn: "\<forall>svc \<in> set svcs. \<exists>n. Service_HumanName svc = Inr n"
    and ln: "\<forall>svc \<in> set svcs. \<forall>slo \<in> set (slosOf svc). \<exists>n. SLO_HumanName slo = Inr n"
    and pt: "\<forall>h rows. Put bqc h (Dataset cfg) tableName rows = None"
  shows "fst (syncAllServices E cfg sd sloc bqc tr) = None \<and>
    (\<exists>written left.
       batches_spec (bqBatchSize E) (concat (map (\<lambda>svc. map (res svc) (slosOf svc)) svcs)) []
         = (written, left) \<and>
       putCalls (snd (syncAllServices E cfg sd sloc bqc tr)) = putCalls tr @ written @ [left] \<and>
       (\<forall>p \<in> set written. bqBatchSize E \<le> int (length p)) \<and>
       (left = [] \<or> int (length left) < bqBatchSize E) \<and>
       concat written @ left = concat (concat (map (\<lambda>svc. map (res svc) (slosOf svc)) svcs)))"
proof -
  let ?all = "concat (map (\<lambda>svc. map (res svc) (slosOf svc)) svcs)"
  let ?tr2 = "tr1 @ [EvServices]"
  obtain written left where sp: "batches_spec (bqBatchSize E) ?all [] = (written, left)"
    by (cases "batches_spec (bqBatchSize E) ?all []") blast
  have p1: "putCalls tr1 = putCalls tr"
    using readBQMap_no_put [of E bqc cfg tr] rd by simp
  have loop: "fst (syncAllServices_svcs E cfg sd sloc bqc existing svcs [] ?tr2) = Inr left \<and>
         putCalls (snd (syncAllServices_svcs E cfg sd sloc bqc existing svcs [] ?tr2))
           = putCalls ?tr2 @ written"
    using syncAllServices_svcs_batches
            [of svcs sloc slosOf E cfg existing sd res bqc "[]" ?tr2]
          sl nr sn ln pt sp
    by simp
  obtain tr3 where r: "syncAllServices_svcs E cfg sd sloc bqc existing svcs [] ?tr2 = (Inr left, tr3)"
    and p3: "putCalls tr3 = putCalls tr @ written"
    using loop p1
    by (cases "syncAllServices_svcs E cfg sd sloc bqc existing svcs [] ?tr2")
       (simp add: putCalls_append)
  have e: "syncAllServices E cfg sd sloc bqc tr
             = (None, tr3 @ [EvPut (Dataset cfg) tableName left])"
    using rd sv r pt by (simp add: syncAllServices_def)
  have "fst (syncAllServices E cfg sd sloc bqc tr) = None"
    and "putCalls (snd (syncAllServices E cfg sd sloc bqc tr)) = putCalls tr @ written @ [left]"
    using e p3 by (simp_all add: putCalls_append)
  moreover have "\<forall>p \<in> set written. bqBatchSize E \<le> int (length p)"
    using batches_spec_written [OF sp] .
  moreover have "left = [] \<or> int (length left) < bqBatchSize E"
    using batches_spec_left [OF sp] by simp
  moreover have "concat written @ left = concat ?all"
    using batches_spec_concat [OF sp] by simp
  ultimately show ?thesis using sp by blast
qed

theorem syncAllServices_batches_witness:
  "fst (syncAllServices test_env cfg0 sd_good_bad sloc_test (bq_test [] None) []) = None \<and>
   putCalls (snd (syncAllServices test_env cfg0 sd_good_bad sloc_test (bq_test [] None) []))
   = [[\<lparr>Service = ''svc1'', SLO = ''slo1'', Date = ''2015-05-09'', Total = 111, Good = 100,
         Target = 99 / 100\<rparr>],
      [\<lparr>Service = ''svc1'', SLO = ''slo2'', Date = ''2015-05-08'', Total = 111, Good = 100,
         Target = 1 / 2\<rparr>],
      []]"
proof -
  let ?r1 = "\<lparr>Service = ''svc1'', SLO = ''slo1'', Date = ''2015-05-09'', Total = 111, Good = 100,
         Target = 99 / 100\<rparr>"
  let ?r2 = "\<lparr>Service = ''svc1'', SLO = ''slo2'', Date = ''2015-05-08'', Total = 111, Good = 100,
         Target = 1 / 2\<rparr>"
  let ?res = "\<lambda>(svc :: Service) (slo :: SLO). if slo = slo1 then [?r1] else [?r2]"
  have rd: "readBQMap test_env (bq_test [] None) cfg0 []
              = (Inr existing_test, snd (readBQMap test_env (bq_test [] None) cfg0 []))"
    by (simp add: readBQMap_def test_env_def cfg0_def bq_test_def row_key_def existing_test_def Let_def)
  have sv: "Services sloc_test (snd (readBQMap test_env (bq_test [] None) cfg0 [])) = Inr [svc1]"
    by (simp add: sloc_test_def)
  have sl: "\<forall>h. \<forall>svc \<in> set [svc1]. SLOs sloc_test h svc = Inr [slo1, slo2]"
    by (simp add: sloc_test_def)
  have n1: "\<And>h. fst (newRecords test_env cfg0 svc1 slo1 existing_test sd_good_bad h) = Inr [?r1]"
    by code_simp
  have n2: "\<And>h. fst (newRecords test_env cfg0 svc1 slo2 existing_test sd_good_bad h) = Inr [?r2]"
    by code_simp
  have ne: "slo2 \<noteq> slo1"
    by (simp add: slo1_def slo2_def)
  have nr: "\<forall>h. \<forall>svc \<in> set [svc1]. \<forall>slo \<in> set [slo1, slo2].
              fst (newRecords test_env cfg0 svc slo existing_test sd_good_bad h) = Inr (?res svc slo)"
    using n1 n2 ne by simp
  have sn: "\<forall>svc \<in> set [svc1]. \<exists>n. Service_HumanName svc = Inr n"
    by (simp add: Service_HumanName_def svc1_def)
  have ln: "\<forall>svc \<in> set [svc1]. \<forall>slo \<in> set [slo1, slo2]. \<exists>n. SLO_HumanName slo = Inr n"
    by (simp add: SLO_HumanName_def slo1_def slo2_def)
  have pt: "\<forall>h rows. Put (bq_test [] None) h (Dataset cfg0) tableName rows = None"
    by (simp add: bq_test_def)
  have b: "bqBatchSize test_env = 1"
    by (simp add: test_env_def)
  show ?thesis
    using syncAllServices_batches [OF rd sv sl nr sn ln pt] ne
    by (simp add: b)
qed

subsection \<open>The calendar\<close>























subsection \<open>Day boundaries\<close>







end
